(* ===== verification/JS_Prelude.thy ===== *)
theory JS_Prelude
  imports Main "HOL-Library.AList" "HOL-Library.Code_Target_Numeral"
begin

text \<open>
  Shared vocabulary of the development: the names of the model's basic types, the
  collections of rules that the component theories add to, and generic facts on
  association lists (JavaScript property lists keep their insertion order, so they are
  association lists rather than maps) and on lists used as heaps.
\<close>

type_synonym addr = nat
  \<comment> \<open>a heap address: the identity of a JavaScript object\<close>

type_synonym pkey = string
  \<comment> \<open>a property key; symbol-keyed properties are not modelled\<close>

named_theorems js_simps "evaluation rules of the JavaScript model"
named_theorems wf_intros "facts that heap operations keep well-formedness"

text \<open>
  Updating an association list with the pairs of another one, in their order: the
  reference result of copying properties one after the other.
\<close>

definition alist_merge :: "('k \<times> 'v) list \<Rightarrow> ('k \<times> 'v) list \<Rightarrow> ('k \<times> 'v) list" where
  "alist_merge al ps = fold (\<lambda>(k, v) al. AList.update k v al) ps al"

subsection \<open>Association lists with insertion order\<close>

lemma update_keys_present [simp]:
  "k \<in> set (map fst al) \<Longrightarrow> map fst (AList.update k v al) = map fst al"
  by (simp add: update_keys)

lemma update_keys_absent:
  "k \<notin> set (map fst al) \<Longrightarrow> map fst (AList.update k v al) = map fst al @ [k]"
  by (simp add: update_keys)

lemma set_update_subset:
  "set (AList.update k v al) \<subseteq> insert (k, v) (set al)"
  by (induction al) auto

lemma map_of_update_same [simp]:
  "map_of (AList.update k v al) k = Some v"
  by (simp add: update_conv')

lemma map_of_update_other [simp]:
  "k' \<noteq> k \<Longrightarrow> map_of (AList.update k v al) k' = map_of al k'"
  by (simp add: update_conv')

lemma list_all_update [intro]:
  "P (k, v) \<Longrightarrow> list_all P al \<Longrightarrow> list_all P (AList.update k v al)"
  by (induction al) auto

lemma list_all_delete [intro]: "list_all P al \<Longrightarrow> list_all P (AList.delete k al)"
  by (induction al) auto

lemma map_of_filter_key:
  "map_of (filter (\<lambda>(k', _). Q k') al) k = (if Q k then map_of al k else None)"
  by (induction al) auto


lemma alist_merge_Nil [simp]: "alist_merge al [] = al"
  by (simp add: alist_merge_def)

lemma alist_merge_Cons [simp]:
  "alist_merge al ((k, v) # ps) = alist_merge (AList.update k v al) ps"
  by (simp add: alist_merge_def)

lemma map_of_alist_merge:
  "distinct (map fst ps) \<Longrightarrow> map_of (alist_merge al ps) = map_of al ++ map_of ps"
proof (induction ps arbitrary: al)
  case Nil
  then show ?case by simp
next
  case (Cons p ps)
  obtain k v where p: "p = (k, v)" by (cases p)
  with Cons.prems have k: "k \<notin> dom (map_of ps)" and d: "distinct (map fst ps)"
    by (auto simp add: dom_map_of_conv_image_fst)
  have "map_of (alist_merge al (p # ps)) = map_of (AList.update k v al) ++ map_of ps"
    using Cons.IH[OF d] p by simp
  also have "\<dots> = map_of al ++ map_of (p # ps)"
    using k p by (auto simp add: update_conv' map_add_def fun_eq_iff split: option.splits)
  finally show ?case .
qed

lemma keys_alist_merge:
  "distinct (map fst ps) \<Longrightarrow>
   map fst (alist_merge al ps) = map fst al @ filter (\<lambda>k. k \<notin> set (map fst al)) (map fst ps)"
proof (induction ps arbitrary: al)
  case Nil
  then show ?case by simp
next
  case (Cons p ps)
  obtain k v where p: "p = (k, v)" by (cases p)
  with Cons.prems have k: "k \<notin> set (map fst ps)" and d: "distinct (map fst ps)" by auto
  show ?case
  proof (cases "k \<in> set (map fst al)")
    case True
    then have "fst ` set (AList.update k v al) = fst ` set al"
      by (simp add: dom_update insert_absorb)
    with Cons.IH[OF d] True p show ?thesis by simp
  next
    case False
    have "filter (\<lambda>x. x \<notin> set (map fst al @ [k])) (map fst ps)
        = filter (\<lambda>x. x \<notin> set (map fst al)) (map fst ps)"
      using k by (auto intro: filter_cong)
    with Cons.IH[OF d, of "AList.update k v al"] False p show ?thesis
      by (simp add: update_keys_absent dom_update)
  qed
qed

lemma alist_merge_append: "alist_merge al (ps @ qs) = alist_merge (alist_merge al ps) qs"
  by (simp add: alist_merge_def)

lemma update_fresh: "k \<notin> fst ` set al \<Longrightarrow> AList.update k v al = al @ [(k, v)]"
  by (induction al) auto

lemma alist_merge_fresh: "distinct (map fst (al @ ps)) \<Longrightarrow> alist_merge al ps = al @ ps"
proof (induction ps arbitrary: al)
  case (Cons p ps)
  obtain k v where p: "p = (k, v)" by (cases p)
  with Cons.prems have "AList.update k v al = al @ [(k, v)]" by (simp add: update_fresh)
  with Cons.prems Cons.IH[of "al @ [(k, v)]"] p show ?case by simp
qed simp

subsection \<open>Lists used as heaps\<close>

lemma nth_append_old [simp]:
  "i < length xs \<Longrightarrow> (xs @ ys) ! i = xs ! i"
  by (simp add: nth_append)

lemma list_update_append_old [simp]:
  "i < length xs \<Longrightarrow> (xs @ ys)[i := y] = xs[i := y] @ ys"
  by (simp add: list_update_append)

lemma update_second_last [simp]: "(xs @ [a, b])[Suc (length xs) := c] = xs @ [a, c]"
  by (simp add: list_update_append)

end
