(* ===== verification/JS_Values.thy ===== *)
theory JS_Values
  imports JS_Prelude
begin

text \<open>
  The JavaScript values that \<open>jest.config.js\<close> handles, the errors its evaluation can
  raise, and the array-index property keys (canonical decimal strings below
  \<open>2^32 - 1\<close>, ECMAScript 6.1.7) with their conversion to and from numbers.
  Numbers are modelled as integers: the configuration handles no fractional number.
\<close>

datatype jsval =
    JUndef
  | JNull
  | JBool bool
  | JNum int
  | JStr string
  | JRef addr

text \<open>
  \<open>ModuleNotFound\<close> is the error \<open>require\<close> throws for an id it cannot resolve
  (Node's \<open>MODULE_NOT_FOUND\<close>). \<open>NotModelled\<close> marks a case the model does not
  describe (a getter, a \<open>__proto__\<close> setter, a string-to-number conversion): an
  evaluation that reaches it is not claimed to behave in any particular way.
\<close>

datatype js_error = TypeError | RangeError | ModuleNotFound string | NotModelled string

type_synonym 'a res = "js_error + 'a"

subsection \<open>Decimal strings\<close>

definition is_digit :: "char \<Rightarrow> bool" where
  "is_digit c \<longleftrightarrow> 48 \<le> (of_char c :: nat) \<and> (of_char c :: nat) \<le> 57"

definition digit_val :: "char \<Rightarrow> nat" where
  "digit_val c = of_char c - 48"

definition digit_char :: "nat \<Rightarrow> char" where
  "digit_char d = char_of (48 + d)"

text \<open>\<open>ToString\<close> of a non-negative integer: its decimal digits.\<close>

fun nat_str :: "nat \<Rightarrow> string" where
  "nat_str n = (if n < 10 then [digit_char n] else nat_str (n div 10) @ [digit_char (n mod 10)])"

declare nat_str.simps [simp del]

definition digits_val :: "string \<Rightarrow> nat" where
  "digits_val s = foldl (\<lambda>a c. 10 * a + digit_val c) 0 s"

definition canonical_nat_str :: "string \<Rightarrow> bool" where
  "canonical_nat_str s \<longleftrightarrow> s \<noteq> [] \<and> list_all is_digit s \<and> (hd s = CHR ''0'' \<longrightarrow> s = ''0'')"

text \<open>
  An array index (ECMAScript 6.1.7): a canonical numeric string whose value is an
  integer in \<open>[0, 2^32 - 2]\<close>.
\<close>

definition is_array_index :: "pkey \<Rightarrow> bool" where
  "is_array_index k \<longleftrightarrow> canonical_nat_str k \<and> digits_val k < 2 ^ 32 - 1"

definition index_of :: "pkey \<Rightarrow> nat" where
  "index_of k = digits_val k"

subsection \<open>Digits\<close>

lemma digit_val_char [simp]: "d < 10 \<Longrightarrow> digit_val (digit_char d) = d"
  by (simp add: digit_val_def digit_char_def)

lemma is_digit_char [simp]: "d < 10 \<Longrightarrow> is_digit (digit_char d)"
  by (simp add: is_digit_def digit_char_def)

lemma digit_char_val: "is_digit c \<Longrightarrow> digit_char (digit_val c) = c"
  by (simp add: is_digit_def digit_char_def digit_val_def)

lemma digit_val_less: "is_digit c \<Longrightarrow> digit_val c < 10"
  unfolding is_digit_def digit_val_def by linarith

lemma digit_val_zero: "is_digit c \<Longrightarrow> digit_val c = 0 \<longleftrightarrow> c = CHR ''0''"
proof -
  assume "is_digit c"
  then have "48 \<le> (of_char c :: nat)" by (simp add: is_digit_def)
  moreover have "(of_char (CHR ''0'') :: nat) = 48" by simp
  ultimately show ?thesis
    by (auto simp add: digit_val_def simp del: of_char_eq_iff
        intro: of_char_eqI[where 'a = nat])
qed

lemma digits_val_snoc [simp]:
  "digits_val (xs @ [c]) = 10 * digits_val xs + digit_val c"
  by (simp add: digits_val_def)

lemma digits_val_Nil [simp]: "digits_val [] = 0"
  by (simp add: digits_val_def)

lemma nat_str_small: "n < 10 \<Longrightarrow> nat_str n = [digit_char n]"
  by (simp add: nat_str.simps)

lemma nat_str_big: "\<not> n < 10 \<Longrightarrow> nat_str n = nat_str (n div 10) @ [digit_char (n mod 10)]"
  by (subst nat_str.simps) simp

lemma nat_str_nonempty [simp]: "nat_str n \<noteq> []"
  by (cases "n < 10") (simp_all add: nat_str_small nat_str_big)

subsection \<open>Decimal printing and parsing are inverse\<close>

lemma digits_val_nat_str [simp]: "digits_val (nat_str n) = n"
proof (induction n rule: nat_str.induct)
  case (1 n)
  show ?case
  proof (cases "n < 10")
    case True
    then show ?thesis by (simp add: nat_str_small digits_val_def)
  next
    case False
    with "1.IH" show ?thesis by (simp add: nat_str_big)
  qed
qed

lemma nat_str_digits: "list_all is_digit (nat_str n)"
proof (induction n rule: nat_str.induct)
  case (1 n)
  then show ?case
    by (cases "n < 10") (simp_all add: nat_str_small nat_str_big)
qed

lemma digit_char_zero: "d < 10 \<Longrightarrow> digit_char d = CHR ''0'' \<Longrightarrow> d = 0"
  by (metis digit_val_char digit_val_zero is_digit_char)

lemma nat_str_hd_zero: "hd (nat_str n) = CHR ''0'' \<Longrightarrow> n = 0"
proof (induction n rule: nat_str.induct)
  case (1 n)
  show ?case
  proof (cases "n < 10")
    case True
    with "1.prems" show ?thesis by (simp add: nat_str_small digit_char_zero)
  next
    case False
    with "1.prems" have "hd (nat_str (n div 10)) = CHR ''0''"
      by (simp add: nat_str_big)
    with False "1.IH" show ?thesis by simp
  qed
qed

lemma nat_str_zero [simp]: "nat_str 0 = ''0''"
  by (simp add: nat_str_small digit_char_def char_of_eq_iff)

lemma canonical_nat_str_nat_str [simp]: "canonical_nat_str (nat_str n)"
  using nat_str_digits nat_str_hd_zero
  by (fastforce simp add: canonical_nat_str_def)

lemma digits_val_zero_all:
  "list_all is_digit s \<Longrightarrow> digits_val s = 0 \<Longrightarrow> list_all (\<lambda>c. c = CHR ''0'') s"
proof (induction s rule: rev_induct)
  case Nil
  then show ?case by simp
next
  case (snoc c s)
  then show ?case by (simp add: digit_val_zero)
qed

lemma canonical_nat_str_tail:
  assumes "canonical_nat_str (s @ [c])" and "s \<noteq> []"
  shows "canonical_nat_str s" and "0 < digits_val s"
proof -
  from assms have hd: "hd s \<noteq> CHR ''0''" and dig: "list_all is_digit s"
    by (auto simp add: canonical_nat_str_def)
  with assms(2) show "canonical_nat_str s" by (simp add: canonical_nat_str_def)
  show "0 < digits_val s"
  proof (rule ccontr)
    assume "\<not> 0 < digits_val s"
    with dig have "list_all (\<lambda>c. c = CHR ''0'') s"
      by (simp add: digits_val_zero_all)
    with assms(2) hd show False by (cases s) auto
  qed
qed

lemma nat_str_digits_val:
  "canonical_nat_str s \<Longrightarrow> nat_str (digits_val s) = s"
proof (induction s rule: rev_induct)
  case Nil
  then show ?case by (simp add: canonical_nat_str_def)
next
  case (snoc c s)
  have c: "is_digit c" using snoc.prems by (simp add: canonical_nat_str_def)
  show ?case
  proof (cases "s = []")
    case True
    with c show ?thesis by (simp add: digits_val_def nat_str_small digit_val_less digit_char_val)
  next
    case False
    with snoc.prems have can: "canonical_nat_str s" and pos: "0 < digits_val s"
      by (rule canonical_nat_str_tail)+
    have lt: "digit_val c < 10" using c by (rule digit_val_less)
    then have "\<not> 10 * digits_val s + digit_val c < 10" using pos by simp
    moreover have "(10 * digits_val s + digit_val c) div 10 = digits_val s" using lt by simp
    moreover have "(10 * digits_val s + digit_val c) mod 10 = digit_val c" using lt by simp
    ultimately show ?thesis
      using snoc.IH[OF can] c by (simp add: nat_str_big digit_char_val)
  qed
qed

lemma index_of_inj: "inj_on index_of {k. is_array_index k}"
  by (rule inj_onI) (metis index_of_def is_array_index_def mem_Collect_eq nat_str_digits_val)

lemma nat_str_inj: "inj nat_str"
  by (rule inj_on_inverseI[where g = digits_val]) simp

lemma nat_str_not_proto [simp]: "nat_str i \<noteq> ''__proto__''"
proof
  assume "nat_str i = ''__proto__''"
  with nat_str_digits[of i] show False by (simp add: is_digit_def)
qed

lemma nat_str_array_index [simp]: "is_array_index (nat_str i) \<longleftrightarrow> i < 2 ^ 32 - 1"
  by (simp add: is_array_index_def)

lemma nat_str_not_length [simp]: "nat_str i \<noteq> ''length''"
proof
  assume "nat_str i = ''length''"
  with nat_str_digits[of i] show False by (simp add: is_digit_def)
qed

end
