(* ===== verification/JS_Heap.thy ===== *)
theory JS_Heap
  imports JS_Values
begin

text \<open>
  Objects and the heap that \<open>jest.config.js\<close> reads and mutates. An object is a class
  tag (ordinary, array with its \<open>length\<close>, or a primitive wrapper) and its own
  properties in creation order; every stored property is a writable, enumerable,
  configurable data property, which is what object literals, array literals,
  \<open>JSON.parse\<close> and \<open>Object.assign\<close> create. Array \<open>length\<close> and the characters of
  a \<open>String\<close> wrapper are computed from the class tag (ECMAScript 10.4.2, 10.4.3).
  The heap is a list of objects indexed by address; allocation appends.
\<close>

datatype objclass =
    OrdinaryObj
  | ArrayObj nat
  | StringObj string
  | NumberObj int
  | BooleanObj bool

record jsobj =
  cls :: objclass
  props :: "(pkey \<times> jsval) list"

type_synonym heap = "jsobj list"

definition new_object :: jsobj where
  "new_object = \<lparr>cls = OrdinaryObj, props = []\<rparr>"

definition heap_lookup :: "heap \<Rightarrow> addr \<Rightarrow> jsobj option" where
  "heap_lookup h a = (if a < length h then Some (h ! a) else None)"

definition alloc :: "jsobj \<Rightarrow> heap \<Rightarrow> addr \<times> heap" where
  "alloc ob h = (length h, h @ [ob])"

text \<open>The wrapper object \<open>ToObject\<close> makes of a primitive (ECMAScript 7.1.18).\<close>

fun prim_obj :: "jsval \<Rightarrow> jsobj option" where
  "prim_obj (JBool b) = Some \<lparr>cls = BooleanObj b, props = []\<rparr>"
| "prim_obj (JNum n) = Some \<lparr>cls = NumberObj n, props = []\<rparr>"
| "prim_obj (JStr s) = Some \<lparr>cls = StringObj s, props = []\<rparr>"
| "prim_obj _ = None"

subsection \<open>Own properties\<close>

text \<open>\<open>[[GetOwnProperty]]\<close>, reduced to the value of the data property.\<close>

definition get_own :: "jsobj \<Rightarrow> pkey \<Rightarrow> jsval option" where
  "get_own ob k = (case cls ob of
      ArrayObj n \<Rightarrow> if k = ''length'' then Some (JNum (int n)) else map_of (props ob) k
    | StringObj s \<Rightarrow>
        if k = ''length'' then Some (JNum (int (length s)))
        else if is_array_index k \<and> index_of k < length s then Some (JStr [s ! index_of k])
        else map_of (props ob) k
    | _ \<Rightarrow> map_of (props ob) k)"

text \<open>Array \<open>length\<close> and string \<open>length\<close> are the only non-enumerable own properties.\<close>

fun virtual_length :: "objclass \<Rightarrow> bool" where
  "virtual_length (ArrayObj _) = True"
| "virtual_length (StringObj _) = True"
| "virtual_length _ = False"

definition enumerable_own :: "jsobj \<Rightarrow> pkey \<Rightarrow> bool" where
  "enumerable_own ob k \<longleftrightarrow> get_own ob k \<noteq> None \<and> \<not> (k = ''length'' \<and> virtual_length (cls ob))"

text \<open>
  \<open>[[OwnPropertyKeys]]\<close> (ECMAScript 10.1.11.1, 10.4.3.3): array-index keys in ascending
  numeric order, then the other string keys in creation order; the \<open>length\<close> of an
  array or string wrapper is created first of its string keys.
\<close>

definition index_keys :: "pkey list \<Rightarrow> pkey list" where
  "index_keys ks = sort_key index_of (filter is_array_index ks)"

definition name_keys :: "pkey list \<Rightarrow> pkey list" where
  "name_keys ks = filter (\<lambda>k. \<not> is_array_index k) ks"

definition own_keys :: "jsobj \<Rightarrow> pkey list" where
  "own_keys ob = (let ks = map fst (props ob) in case cls ob of
      ArrayObj _ \<Rightarrow> index_keys ks @ ''length'' # name_keys ks
    | StringObj s \<Rightarrow> map nat_str [0..<length s] @ index_keys ks @ ''length'' # name_keys ks
    | _ \<Rightarrow> index_keys ks @ name_keys ks)"

subsection \<open>Reading a property\<close>

text \<open>
  Names the built-in prototypes define (Object, Array, String, Number and Boolean
  prototypes). The model keeps no prototype objects: a read that would reach one of
  these inherited properties is \<open>NotModelled\<close>, and any other missing property reads as
  \<open>undefined\<close>, as the prototype chain has nothing under that name.
\<close>

definition object_proto_keys :: "pkey list" where
  "object_proto_keys = [''constructor'', ''__defineGetter__'', ''__defineSetter__'',
     ''hasOwnProperty'', ''__lookupGetter__'', ''__lookupSetter__'', ''isPrototypeOf'',
     ''propertyIsEnumerable'', ''toString'', ''valueOf'', ''__proto__'', ''toLocaleString'']"

definition array_proto_keys :: "pkey list" where
  "array_proto_keys = [''length'', ''at'', ''concat'', ''copyWithin'', ''fill'', ''find'',
     ''findIndex'', ''findLast'', ''findLastIndex'', ''lastIndexOf'', ''pop'', ''push'',
     ''reverse'', ''shift'', ''unshift'', ''slice'', ''sort'', ''splice'', ''includes'',
     ''indexOf'', ''join'', ''keys'', ''entries'', ''values'', ''forEach'', ''filter'', ''flat'',
     ''flatMap'', ''map'', ''every'', ''some'', ''reduce'', ''reduceRight'', ''toReversed'',
     ''toSorted'', ''toSpliced'', ''with'']"

definition string_proto_keys :: "pkey list" where
  "string_proto_keys = [''length'', ''anchor'', ''at'', ''big'', ''blink'', ''bold'', ''charAt'',
     ''charCodeAt'', ''codePointAt'', ''concat'', ''endsWith'', ''fontcolor'', ''fontsize'',
     ''fixed'', ''includes'', ''indexOf'', ''isWellFormed'', ''italics'', ''lastIndexOf'', ''link'',
     ''localeCompare'', ''match'', ''matchAll'', ''normalize'', ''padEnd'', ''padStart'',
     ''repeat'', ''replace'', ''replaceAll'', ''search'', ''slice'', ''small'', ''split'',
     ''strike'', ''sub'', ''substr'', ''substring'', ''sup'', ''startsWith'', ''toWellFormed'',
     ''trim'', ''trimStart'', ''trimLeft'', ''trimEnd'', ''trimRight'', ''toLocaleLowerCase'',
     ''toLocaleUpperCase'', ''toLowerCase'', ''toUpperCase'']"

definition number_proto_keys :: "pkey list" where
  "number_proto_keys = [''toExponential'', ''toFixed'', ''toPrecision'']"

fun proto_keys :: "objclass \<Rightarrow> pkey list" where
  "proto_keys OrdinaryObj = object_proto_keys"
| "proto_keys (ArrayObj _) = array_proto_keys @ object_proto_keys"
| "proto_keys (StringObj _) = string_proto_keys @ object_proto_keys"
| "proto_keys (NumberObj _) = number_proto_keys @ object_proto_keys"
| "proto_keys (BooleanObj _) = object_proto_keys"

text \<open>\<open>[[Get]]\<close> with the object as receiver (ECMAScript 10.1.8).\<close>

definition get_from_obj :: "jsobj \<Rightarrow> pkey \<Rightarrow> jsval res" where
  "get_from_obj ob k = (case get_own ob k of
      Some v \<Rightarrow> Inr v
    | None \<Rightarrow> if k \<in> set (proto_keys (cls ob)) then Inl (NotModelled ''inherited property'')
              else Inr JUndef)"

text \<open>
  A member expression \<open>v.k\<close> (ECMAScript 13.3.2, \<open>GetValue\<close>): \<open>undefined\<close> and
  \<open>null\<close> throw a \<open>TypeError\<close>, a primitive is read through its wrapper.
\<close>

fun get_value :: "heap \<Rightarrow> jsval \<Rightarrow> pkey \<Rightarrow> jsval res" where
  "get_value h JUndef k = Inl TypeError"
| "get_value h JNull k = Inl TypeError"
| "get_value h (JRef a) k = (case heap_lookup h a of
      None \<Rightarrow> Inl (NotModelled ''dangling reference'')
    | Some ob \<Rightarrow> get_from_obj ob k)"
| "get_value h v k = (case prim_obj v of
      None \<Rightarrow> Inl TypeError
    | Some ob \<Rightarrow> get_from_obj ob k)"

subsection \<open>Writing a property\<close>

text \<open>
  \<open>[[Set]]\<close> with the object as receiver and \<open>Throw = true\<close> (ECMAScript 7.3.4,
  10.1.9). On an ordinary object it updates the own property in place or appends a new
  one after the existing ones. The only inherited accessor on these prototypes is
  \<open>Object.prototype.__proto__\<close>, whose setter changes the prototype: not modelled.
\<close>

definition ordinary_set :: "jsobj \<Rightarrow> pkey \<Rightarrow> jsval \<Rightarrow> jsobj res" where
  "ordinary_set ob k v =
     (if k = ''__proto__'' \<and> map_of (props ob) k = None
      then Inl (NotModelled ''__proto__ setter'')
      else Inr (ob\<lparr>props := AList.update k v (props ob)\<rparr>))"

text \<open>
  \<open>ToNumber\<close> for a new array length. \<open>ToNumber(undefined)\<close> is \<open>NaN\<close>, which
  \<open>ArraySetLength\<close> rejects; strings and objects need conversions not modelled.
\<close>

fun length_number :: "jsval \<Rightarrow> int res" where
  "length_number (JNum i) = Inr i"
| "length_number (JBool b) = Inr (if b then 1 else 0)"
| "length_number JNull = Inr 0"
| "length_number JUndef = Inl RangeError"
| "length_number (JStr _) = Inl (NotModelled ''StringToNumber'')"
| "length_number (JRef _) = Inl (NotModelled ''ToPrimitive'')"

text \<open>
  \<open>ArraySetLength\<close> (ECMAScript 10.4.2.4): the new length must be a uint32; the
  elements at or above it are deleted.
\<close>

definition array_set_length :: "jsobj \<Rightarrow> jsval \<Rightarrow> jsobj res" where
  "array_set_length ob v = (case length_number v of
      Inl e \<Rightarrow> Inl e
    | Inr i \<Rightarrow>
        if 0 \<le> i \<and> i < 2 ^ 32
        then Inr \<lparr>cls = ArrayObj (nat i),
                  props = filter (\<lambda>(k, _). \<not> (is_array_index k \<and> nat i \<le> index_of k)) (props ob)\<rparr>
        else Inl RangeError)"

definition set_prop :: "jsobj \<Rightarrow> pkey \<Rightarrow> jsval \<Rightarrow> jsobj res" where
  "set_prop ob k v = (case cls ob of
      ArrayObj n \<Rightarrow>
        if k = ''length'' then array_set_length ob v
        else if is_array_index k
        then Inr \<lparr>cls = ArrayObj (max n (Suc (index_of k))), props = AList.update k v (props ob)\<rparr>
        else ordinary_set ob k v
    | StringObj s \<Rightarrow>
        if k = ''length'' \<or> (is_array_index k \<and> index_of k < length s) then Inl TypeError
        else ordinary_set ob k v
    | _ \<Rightarrow> ordinary_set ob k v)"

text \<open>\<open>Set(O, k, v, true)\<close> on the object at an address; a failed write leaves the heap.\<close>

definition put :: "heap \<Rightarrow> addr \<Rightarrow> pkey \<Rightarrow> jsval \<Rightarrow> unit res \<times> heap" where
  "put h a k v = (case heap_lookup h a of
      None \<Rightarrow> (Inl (NotModelled ''dangling reference''), h)
    | Some ob \<Rightarrow> (case set_prop ob k v of
        Inl e \<Rightarrow> (Inl e, h)
      | Inr ob' \<Rightarrow> (Inr (), h[a := ob'])))"

subsection \<open>Well-formed heaps\<close>

text \<open>
  Every reference stored in the heap points into it, property keys are distinct, an
  array's length is a uint32 above all its index keys, and the properties a string
  wrapper computes (\<open>length\<close>, its character indices) are not stored.
\<close>

fun val_ok :: "nat \<Rightarrow> jsval \<Rightarrow> bool" where
  "val_ok n (JRef a) = (a < n)"
| "val_ok n _ = True"

fun class_ok :: "objclass \<Rightarrow> pkey list \<Rightarrow> bool" where
  "class_ok (ArrayObj len) ks =
     (len < 2 ^ 32 \<and> ''length'' \<notin> set ks \<and> list_all (\<lambda>k. is_array_index k \<longrightarrow> index_of k < len) ks)"
| "class_ok (StringObj s) ks =
     (''length'' \<notin> set ks \<and> list_all (\<lambda>k. is_array_index k \<longrightarrow> length s \<le> index_of k) ks)"
| "class_ok _ ks = True"

definition wf_obj :: "nat \<Rightarrow> jsobj \<Rightarrow> bool" where
  "wf_obj n ob \<longleftrightarrow> distinct (map fst (props ob)) \<and> list_all (\<lambda>p. val_ok n (snd p)) (props ob)
     \<and> class_ok (cls ob) (map fst (props ob))"

definition wf_heap :: "heap \<Rightarrow> bool" where
  "wf_heap h \<longleftrightarrow> list_all (wf_obj (length h)) h"

declare alloc_def [js_simps]

subsection \<open>Lookup, allocation and writes\<close>

lemma heap_lookup_Some [simp]:
  "heap_lookup h a = Some ob \<longleftrightarrow> a < length h \<and> ob = h ! a"
  by (auto simp add: heap_lookup_def)

lemma heap_lookup_None [simp]:
  "heap_lookup h a = None \<longleftrightarrow> length h \<le> a"
  by (simp add: heap_lookup_def)

lemma alloc_fresh [simp]: "fst (alloc ob h) = length h"
  by (simp add: alloc_def)

lemma alloc_heap [simp]: "snd (alloc ob h) = h @ [ob]"
  by (simp add: alloc_def)

lemma ordinary_set_Inr:
  "ordinary_set ob k v = Inr ob' \<Longrightarrow> ob' = ob\<lparr>props := AList.update k v (props ob)\<rparr>"
  by (simp add: ordinary_set_def split: if_splits)

lemma put_cases:
  assumes "put h a k v = (r, h')"
  obtains (ok) ob ob' where "a < length h" "ob = h ! a" "set_prop ob k v = Inr ob'"
      "r = Inr ()" "h' = h[a := ob']"
  | (err) e where "r = Inl e" "h' = h"
  using assms unfolding put_def heap_lookup_def
  by (cases "a < length h"; cases "set_prop (h ! a) k v") auto

lemma put_length [simp]: "put h a k v = (r, h') \<Longrightarrow> length h' = length h"
  by (erule put_cases) simp_all

lemma put_frame: "put h a k v = (r, h') \<Longrightarrow> b \<noteq> a \<Longrightarrow> h' ! b = h ! b"
  by (erule put_cases) simp_all

subsection \<open>Well-formedness is kept\<close>

lemma val_ok_mono: "val_ok n v \<Longrightarrow> n \<le> m \<Longrightarrow> val_ok m v"
  by (cases v) auto

lemma wf_obj_mono: "wf_obj n ob \<Longrightarrow> n \<le> m \<Longrightarrow> wf_obj m ob"
  by (auto simp add: wf_obj_def list_all_iff intro: val_ok_mono)

lemma wf_new_object [simp]: "wf_obj n new_object"
  by (simp add: wf_obj_def new_object_def)

lemma wf_heap_alloc [wf_intros]:
  "wf_heap h \<Longrightarrow> wf_obj (Suc (length h)) ob \<Longrightarrow> wf_heap (snd (alloc ob h))"
  by (auto simp add: wf_heap_def list_all_iff intro: wf_obj_mono)

lemma wf_heap_update [wf_intros]:
  "wf_heap h \<Longrightarrow> wf_obj (length h) ob \<Longrightarrow> wf_heap (h[a := ob])"
  by (auto simp add: wf_heap_def list_all_iff dest: set_update_subset_insert [THEN subsetD])

lemma wf_heap_nth: "wf_heap h \<Longrightarrow> a < length h \<Longrightarrow> wf_obj (length h) (h ! a)"
  by (simp add: wf_heap_def list_all_length)

lemma vals_update_ok:
  "list_all (\<lambda>p. val_ok n (snd p)) al \<Longrightarrow> val_ok n v
   \<Longrightarrow> list_all (\<lambda>p. val_ok n (snd p)) (AList.update k v al)"
  using set_update_subset[of k v al] by (auto simp add: list_all_iff)

lemma keys_update_subset: "set (map fst (AList.update k v al)) \<subseteq> insert k (set (map fst al))"
  by (simp add: dom_update)

lemma wf_obj_update_plain:
  assumes "wf_obj n ob" "val_ok n v"
    and "class_ok (cls ob) (map fst (AList.update k v (props ob)))"
  shows "wf_obj n (ob\<lparr>props := AList.update k v (props ob)\<rparr>)"
  using assms by (simp add: wf_obj_def distinct_update vals_update_ok)

lemma class_ok_string_update:
  assumes "class_ok (StringObj s) ks" "set ks' \<subseteq> insert k (set ks)"
    and "k \<noteq> ''length''" "\<not> (is_array_index k \<and> index_of k < length s)"
  shows "class_ok (StringObj s) ks'"
  using assms by (auto simp add: list_all_iff)

lemma class_ok_array_update:
  assumes "class_ok (ArrayObj n) ks" "set ks' \<subseteq> insert k (set ks)"
    and "k \<noteq> ''length''" "is_array_index k \<longrightarrow> index_of k < n'" "n \<le> n'" "n' < 2 ^ 32"
  shows "class_ok (ArrayObj n') ks'"
  using assms by (fastforce simp add: list_all_iff)

lemma array_set_length_wf:
  assumes "array_set_length ob v = Inr ob'" "wf_obj n ob" "\<exists>len. cls ob = ArrayObj len"
  shows "wf_obj n ob'"
proof -
  obtain i where i: "length_number v = Inr i" "0 \<le> i" "i < 2 ^ 32"
    and ob': "ob' = \<lparr>cls = ArrayObj (nat i),
       props = filter (\<lambda>(k, _). \<not> (is_array_index k \<and> nat i \<le> index_of k)) (props ob)\<rparr>"
    using assms(1) by (auto simp add: array_set_length_def split: sum.splits if_splits)
  have "nat i < 2 ^ 32" using i by (simp add: nat_less_iff)
  with assms(2,3) ob' show ?thesis
    by (force simp add: wf_obj_def list_all_iff distinct_map_filter)
qed

lemma ordinary_set_wf:
  assumes "ordinary_set ob k v = Inr ob'" "wf_obj n ob" "val_ok n v"
    and "class_ok (cls ob) (map fst (AList.update k v (props ob)))"
  shows "wf_obj n ob'"
proof -
  from assms(1) have "ob' = ob\<lparr>props := AList.update k v (props ob)\<rparr>"
    by (rule ordinary_set_Inr)
  with wf_obj_update_plain[OF assms(2,3,4)] show ?thesis by simp
qed

lemma set_prop_array_wf:
  assumes set: "set_prop ob k v = Inr ob'" and wf: "wf_obj n ob" and v: "val_ok n v"
    and arr: "cls ob = ArrayObj len"
  shows "wf_obj n ob'"
proof -
  have len: "len < 2 ^ 32" and ks: "class_ok (ArrayObj len) (map fst (props ob))"
    using wf arr by (simp_all add: wf_obj_def)
  consider (length) "k = ''length''" | (index) "k \<noteq> ''length''" "is_array_index k"
    | (name) "k \<noteq> ''length''" "\<not> is_array_index k" by blast
  then show ?thesis
  proof cases
    case length
    with set arr have "array_set_length ob v = Inr ob'" by (simp add: set_prop_def)
    with wf arr show ?thesis by (blast intro: array_set_length_wf)
  next
    case index
    let ?m = "max len (Suc (index_of k))"
    have ob': "ob' = \<lparr>cls = ArrayObj ?m, props = AList.update k v (props ob)\<rparr>"
      using set arr index by (simp add: set_prop_def)
    have "Suc (index_of k) < 2 ^ 32"
      using index by (simp add: is_array_index_def index_of_def)
    with len have "?m < 2 ^ 32" by simp
    then have "class_ok (ArrayObj ?m) (map fst (AList.update k v (props ob)))"
      using index by (intro class_ok_array_update[OF ks keys_update_subset]) auto
    with wf v ob' show ?thesis
      by (simp add: wf_obj_def distinct_update vals_update_ok)
  next
    case name
    have "ordinary_set ob k v = Inr ob'" using set arr name by (simp add: set_prop_def)
    moreover have "class_ok (ArrayObj len) (map fst (AList.update k v (props ob)))"
      by (rule class_ok_array_update[OF ks keys_update_subset]) (use name len in auto)
    then have "class_ok (cls ob) (map fst (AList.update k v (props ob)))"
      using arr by simp
    ultimately show ?thesis by (rule ordinary_set_wf[OF _ wf v])
  qed
qed

lemma set_prop_string_wf:
  assumes set: "set_prop ob k v = Inr ob'" and wf: "wf_obj n ob" and v: "val_ok n v"
    and str: "cls ob = StringObj s"
  shows "wf_obj n ob'"
proof -
  from set str have k: "k \<noteq> ''length''" "\<not> (is_array_index k \<and> index_of k < length s)"
    and os: "ordinary_set ob k v = Inr ob'"
    by (auto simp add: set_prop_def split: if_splits)
  have cs: "class_ok (StringObj s) (map fst (props ob))" using wf str by (simp add: wf_obj_def)
  have "class_ok (StringObj s) (map fst (AList.update k v (props ob)))"
    by (rule class_ok_string_update[OF cs keys_update_subset]) (use k in auto)
  then have "class_ok (cls ob) (map fst (AList.update k v (props ob)))"
    using str by simp
  with os wf v show ?thesis by (rule ordinary_set_wf)
qed

lemma set_prop_wf [wf_intros]:
  assumes set: "set_prop ob k v = Inr ob'" and wf: "wf_obj n ob" and v: "val_ok n v"
  shows "wf_obj n ob'"
proof (cases "cls ob")
  case (ArrayObj len)
  from assms ArrayObj show ?thesis by (rule set_prop_array_wf)
next
  case (StringObj s)
  from assms StringObj show ?thesis by (rule set_prop_string_wf)
qed (use assms in \<open>simp_all add: set_prop_def ordinary_set_wf\<close>)

lemma put_wf [wf_intros]:
  assumes "put h a k v = (r, h')" "wf_heap h" "val_ok (length h) v"
  shows "wf_heap h'"
  using assms(1)
proof (cases rule: put_cases)
  case (ok ob ob')
  with assms(2,3) have "wf_obj (length h) ob'"
    by (auto intro: set_prop_wf wf_heap_nth)
  with ok assms(2) show ?thesis by (simp add: wf_heap_update)
next
  case err
  with assms(2) show ?thesis by simp
qed
lemma set_prop_ordinary:
  "cls ob = OrdinaryObj \<Longrightarrow> k \<noteq> ''__proto__'' \<Longrightarrow> set_prop ob k v = Inr (ob\<lparr>props := AList.update k v (props ob)\<rparr>)"
  by (simp add: set_prop_def ordinary_set_def)

lemma put_ordinary:
  assumes "a < length h" "cls (h ! a) = OrdinaryObj" "k \<noteq> ''__proto__''"
  shows "put h a k v = (Inr (), h[a := (h ! a)\<lparr>props := AList.update k v (props (h ! a))\<rparr>])"
proof -
  have lk: "heap_lookup h a = Some (h ! a)" using assms(1) by (simp add: heap_lookup_def)
  show ?thesis unfolding put_def lk option.case set_prop_ordinary[OF assms(2,3)] sum.case ..
qed

lemma set_prop_string_index:
  "cls ob = StringObj s \<Longrightarrow> is_array_index k \<Longrightarrow> index_of k < length s \<Longrightarrow> set_prop ob k v = Inl TypeError"
  by (simp add: set_prop_def)

subsection \<open>The order of own keys\<close>

lemma distinct_index_name_keys:
  "distinct ks \<Longrightarrow> distinct (index_keys ks @ name_keys ks)"
  by (auto simp add: index_keys_def name_keys_def)

lemma index_keys_strict: "distinct ks \<Longrightarrow> sorted_wrt (<) (map index_of (index_keys ks))"
proof -
  assume d: "distinct ks"
  have "inj_on index_of (set (index_keys ks))"
    by (rule inj_on_subset[OF index_of_inj]) (auto simp add: index_keys_def)
  moreover have "distinct (index_keys ks)" using d by (simp add: index_keys_def)
  ultimately have "distinct (map index_of (index_keys ks))" by (simp add: distinct_map)
  moreover have "sorted (map index_of (index_keys ks))" by (simp add: index_keys_def)
  ultimately show ?thesis by (simp add: strict_sorted_iff)
qed

subsection \<open>Truncating an array\<close>

text \<open>
  C11: setting the \<open>length\<close> of an array to a uint32 \<open>i\<close> makes \<open>i\<close> its
  length, keeps its elements below \<open>i\<close> and deletes those at or above it.
\<close>

theorem array_set_length_truncates:
  assumes "cls ob = ArrayObj n" "0 \<le> i" "i < 2 ^ 32"
  shows "\<exists>ob'. array_set_length ob (JNum i) = Inr ob' \<and> cls ob' = ArrayObj (nat i)
     \<and> (\<forall>j < 2 ^ 32 - 1. get_own ob' (nat_str j) = (if j < nat i then get_own ob (nat_str j) else None))"
  using assms
  by (auto simp add: array_set_length_def get_own_def map_of_filter_key is_array_index_def index_of_def)


theorem array_set_length_truncates_witness:
  "\<exists>ob'. array_set_length \<lparr>cls = ArrayObj 3, props = [(''0'', JNum 1), (''1'', JNum 2), (''2'', JNum 3), (''x'', JNull)]\<rparr> (JNum 1) = Inr ob' \<and> cls ob' = ArrayObj (nat 1)
     \<and> (\<forall>j < 2 ^ 32 - 1. get_own ob' (nat_str j) = (if j < nat 1 then get_own \<lparr>cls = ArrayObj 3, props = [(''0'', JNum 1), (''1'', JNum 2), (''2'', JNum 3), (''x'', JNull)]\<rparr> (nat_str j) else None))"
  by (rule array_set_length_truncates[where n = 3]) simp_all


end
