(* ===== verification/Modules.thy ===== *)
theory Modules
  imports JS_Heap
begin

text \<open>
  The CommonJS module system of Node.js as \<open>src/jest.config.js\<close> uses it: line 1
  calls \<open>require('kcd-scripts/jest')\<close> and line 3 assigns \<open>module.exports\<close>. The
  runtime state is the heap and the module cache \<open>require.cache\<close>, an object that
  maps a module id to the current \<open>module.exports\<close> of that module (an association
  list, as the keys of a JavaScript object). \<open>require\<close>
  (Node's \<open>Module._load\<close>) returns the cached exports of a loaded module; otherwise it
  creates the module with a fresh empty \<open>exports\<close> object, caches it before running
  its body, and removes it from the cache again if the body throws. Path resolution
  is not modelled: a module is named by its id.
\<close>

record runtime =
  rheap :: heap
  rcache :: "(string \<times> jsval) list"

text \<open>A module body: it runs on the runtime state and may throw.\<close>

type_synonym module_body = "runtime \<Rightarrow> unit res \<times> runtime"

text \<open>The \<open>require\<close> function a body is given.\<close>

type_synonym require_fn = "string \<Rightarrow> runtime \<Rightarrow> jsval res \<times> runtime"

text \<open>\<open>module.exports = v\<close> in the body of module \<open>m\<close>.\<close>

definition set_exports :: "string \<Rightarrow> jsval \<Rightarrow> runtime \<Rightarrow> runtime" where
  "set_exports m v st = st\<lparr>rcache := AList.update m v (rcache st)\<rparr>"

text \<open>A new module: \<open>module.exports\<close> is a fresh empty object, cached at once.\<close>

definition start_module :: "string \<Rightarrow> runtime \<Rightarrow> runtime" where
  "start_module m st = (case alloc new_object (rheap st) of
      (a, h) \<Rightarrow> st\<lparr>rheap := h, rcache := AList.update m (JRef a) (rcache st)\<rparr>)"

definition require_module :: "string \<Rightarrow> module_body \<Rightarrow> runtime \<Rightarrow> jsval res \<times> runtime" where
  "require_module m body st = (case map_of (rcache st) m of
      Some e \<Rightarrow> (Inr e, st)
    | None \<Rightarrow> (case body (start_module m st) of
        (Inl e, st2) \<Rightarrow> (Inl e, st2\<lparr>rcache := AList.delete m (rcache st2)\<rparr>)
      | (Inr _, st2) \<Rightarrow> (case map_of (rcache st2) m of
          Some e \<Rightarrow> (Inr e, st2)
        | None \<Rightarrow> (Inl (NotModelled ''module removed from the cache''), st2))))"

text \<open>
  A well-formed runtime: a well-formed heap whose cached exports point into it.
\<close>

definition wf_runtime :: "runtime \<Rightarrow> bool" where
  "wf_runtime st \<longleftrightarrow> wf_heap (rheap st) \<and> list_all (\<lambda>p. val_ok (length (rheap st)) (snd p)) (rcache st)"

lemma require_module_cached:
  "map_of (rcache st) m = Some e \<Longrightarrow> require_module m body st = (Inr e, st)"
  by (simp add: require_module_def)

lemma require_module_new:
  "map_of (rcache st) m = None \<Longrightarrow> body (start_module m st) = (Inr u, st2) \<Longrightarrow>
   map_of (rcache st2) m = Some e \<Longrightarrow> require_module m body st = (Inr e, st2)"
  by (simp add: require_module_def)

lemma require_module_in_cache:
  "require_module m body st = (Inr v, st') \<Longrightarrow> map_of (rcache st') m = Some v"
  by (auto simp add: require_module_def split: option.splits prod.splits sum.splits)

lemma map_of_set_exports [simp]:
  "map_of (rcache (set_exports m v st)) m' = (if m' = m then Some v else map_of (rcache st) m')"
  by (simp add: set_exports_def update_conv')

lemma rheap_set_exports [simp]: "rheap (set_exports m v st) = rheap st"
  by (simp add: set_exports_def)

subsection \<open>Well-formed runtimes\<close>

lemma set_exports_wf [wf_intros]:
  "wf_runtime st \<Longrightarrow> val_ok (length (rheap st)) v \<Longrightarrow> wf_runtime (set_exports m v st)"
  by (simp add: wf_runtime_def set_exports_def list_all_update)

lemma start_module_wf [wf_intros]:
  assumes "wf_runtime st"
  shows "wf_runtime (start_module m st)"
proof -
  have "wf_heap (rheap st @ [new_object])"
    using wf_heap_alloc[of "rheap st" new_object] assms by (simp add: wf_runtime_def)
  moreover have "list_all (\<lambda>p. val_ok (Suc (length (rheap st))) (snd p)) (rcache st)"
    using assms by (auto simp add: wf_runtime_def list_all_iff intro: val_ok_mono)
  ultimately show ?thesis
    by (simp add: wf_runtime_def start_module_def alloc_def list_all_update)
qed

lemma wf_runtime_heap_grows:
  "wf_runtime st \<Longrightarrow> wf_heap h \<Longrightarrow> length (rheap st) \<le> length h \<Longrightarrow> wf_runtime (st\<lparr>rheap := h\<rparr>)"
  by (auto simp add: wf_runtime_def list_all_iff intro: val_ok_mono)

lemma wf_runtime_cached:
  "wf_runtime st \<Longrightarrow> map_of (rcache st) m = Some v \<Longrightarrow> val_ok (length (rheap st)) v"
  using map_of_SomeD[of "rcache st" m v] by (force simp add: wf_runtime_def list_all_iff)

lemma require_module_wf:
  assumes "require_module m body st = (r, st')" "wf_runtime st"
    and "\<And>s r s'. wf_runtime s \<Longrightarrow> body s = (r, s') \<Longrightarrow> wf_runtime s'"
  shows "wf_runtime st' \<and> (\<forall>v. r = Inr v \<longrightarrow> val_ok (length (rheap st')) v)"
proof (cases "map_of (rcache st) m")
  case (Some e)
  with assms(1,2) show ?thesis by (auto simp add: require_module_def wf_runtime_cached)
next
  case None
  obtain r1 st2 where b: "body (start_module m st) = (r1, st2)" by fastforce
  have wf2: "wf_runtime st2" using assms(3)[OF start_module_wf[OF assms(2)] b] .
  then have "wf_runtime (st2\<lparr>rcache := AList.delete m (rcache st2)\<rparr>)"
    by (simp add: wf_runtime_def list_all_delete)
  with None b assms(1) wf2 show ?thesis
    by (auto simp add: require_module_def wf_runtime_cached split: sum.splits option.splits)
qed

subsection \<open>Loading a module twice\<close>

text \<open>
  C10: once \<open>require\<close> has returned a module's exports, requiring it again
  returns the same value and leaves the runtime as it is: the body is not run again.
\<close>

theorem require_module_idempotent:
  "require_module m body st = (Inr v, st') \<Longrightarrow> require_module m body' st' = (Inr v, st')"
  by (rule require_module_cached) (rule require_module_in_cache)


theorem require_module_idempotent_witness:
  "require_module ''m'' (\<lambda>st. (Inl TypeError, st))
     (snd (require_module ''m'' (\<lambda>st. (Inr (), set_exports ''m'' (JNum 1) st)) \<lparr>rheap = [], rcache = []\<rparr>))
   = (Inr (JNum 1),
      snd (require_module ''m'' (\<lambda>st. (Inr (), set_exports ''m'' (JNum 1) st)) \<lparr>rheap = [], rcache = []\<rparr>))"
proof -
  have "require_module ''m'' (\<lambda>st. (Inr (), set_exports ''m'' (JNum 1) st)) \<lparr>rheap = [], rcache = []\<rparr>
      = (Inr (JNum 1), snd (require_module ''m'' (\<lambda>st. (Inr (), set_exports ''m'' (JNum 1) st)) \<lparr>rheap = [], rcache = []\<rparr>))" by code_simp
  then show ?thesis by (rule require_module_idempotent)
qed


end
