(* ===== verification/Object_Assign.thy ===== *)
theory Object_Assign
  imports JS_Heap
begin

text \<open>
  \<open>Object.assign(target, ...sources)\<close> (ECMAScript 20.1.2.1), the call on line 3 of
  \<open>src/jest.config.js\<close>. The target is converted with \<open>ToObject\<close>; each source that
  is not \<open>undefined\<close> or \<open>null\<close> is converted too, its own keys are listed once, and
  every key that is still an enumerable own property when its turn comes is read with
  \<open>Get\<close> and written to the target with \<open>Set(to, key, value, true)\<close>. The target
  itself is returned: it is mutated in place. Writes made before an exception stay.
\<close>

text \<open>
  A source is either an object of the heap, read again at every key (the target may be
  the source), or the wrapper of a primitive. The wrapper \<open>ToObject\<close> would allocate
  for a primitive source is unreachable afterwards, so it is kept out of the heap.
\<close>

datatype assign_src = SrcRef addr | SrcObj jsobj

definition src_obj :: "heap \<Rightarrow> assign_src \<Rightarrow> jsobj option" where
  "src_obj h src = (case src of SrcRef a \<Rightarrow> heap_lookup h a | SrcObj ob \<Rightarrow> Some ob)"

text \<open>The loop over the keys of one source (step 3.a.iii of ECMAScript 20.1.2.1).\<close>

fun assign_keys :: "heap \<Rightarrow> addr \<Rightarrow> assign_src \<Rightarrow> pkey list \<Rightarrow> unit res \<times> heap" where
  "assign_keys h to src [] = (Inr (), h)"
| "assign_keys h to src (k # ks) = (case src_obj h src of
      None \<Rightarrow> (Inl (NotModelled ''dangling reference''), h)
    | Some from \<Rightarrow>
        if enumerable_own from k
        then (case get_from_obj from k of
                Inl e \<Rightarrow> (Inl e, h)
              | Inr v \<Rightarrow> (case put h to k v of
                  (Inl e, h') \<Rightarrow> (Inl e, h')
                | (Inr _, h') \<Rightarrow> assign_keys h' to src ks))
        else assign_keys h to src ks)"

text \<open>\<open>ToObject\<close> of the target (ECMAScript 7.1.18): a primitive gets a new wrapper.\<close>

definition to_object :: "heap \<Rightarrow> jsval \<Rightarrow> addr res \<times> heap" where
  "to_object h v = (case v of
      JUndef \<Rightarrow> (Inl TypeError, h)
    | JNull \<Rightarrow> (Inl TypeError, h)
    | JRef a \<Rightarrow> if a < length h then (Inr a, h) else (Inl (NotModelled ''dangling reference''), h)
    | _ \<Rightarrow> (case prim_obj v of
        None \<Rightarrow> (Inl TypeError, h)
      | Some ob \<Rightarrow> (Inr (fst (alloc ob h)), snd (alloc ob h))))"

text \<open>A source: \<open>undefined\<close> and \<open>null\<close> are skipped (step 3.a), others converted.\<close>

definition source_of :: "heap \<Rightarrow> jsval \<Rightarrow> assign_src option res" where
  "source_of h v = (case v of
      JUndef \<Rightarrow> Inr None
    | JNull \<Rightarrow> Inr None
    | JRef a \<Rightarrow> if a < length h then Inr (Some (SrcRef a)) else Inl (NotModelled ''dangling reference'')
    | _ \<Rightarrow> (case prim_obj v of None \<Rightarrow> Inl TypeError | Some ob \<Rightarrow> Inr (Some (SrcObj ob))))"

fun assign_sources :: "heap \<Rightarrow> addr \<Rightarrow> jsval list \<Rightarrow> unit res \<times> heap" where
  "assign_sources h to [] = (Inr (), h)"
| "assign_sources h to (s # ss) = (case source_of h s of
      Inl e \<Rightarrow> (Inl e, h)
    | Inr None \<Rightarrow> assign_sources h to ss
    | Inr (Some src) \<Rightarrow> (case src_obj h src of
        None \<Rightarrow> (Inl (NotModelled ''dangling reference''), h)
      | Some from \<Rightarrow> (case assign_keys h to src (own_keys from) of
          (Inl e, h') \<Rightarrow> (Inl e, h')
        | (Inr _, h') \<Rightarrow> assign_sources h' to ss)))"

definition object_assign :: "heap \<Rightarrow> jsval \<Rightarrow> jsval list \<Rightarrow> jsval res \<times> heap" where
  "object_assign h target sources = (case to_object h target of
      (Inl e, h1) \<Rightarrow> (Inl e, h1)
    | (Inr a, h1) \<Rightarrow> (case assign_sources h1 a sources of
        (Inl e, h2) \<Rightarrow> (Inl e, h2)
      | (Inr _, h2) \<Rightarrow> (Inr (JRef a), h2)))"

text \<open>A source whose object is well-formed in the heap.\<close>

definition src_wf :: "heap \<Rightarrow> assign_src \<Rightarrow> bool" where
  "src_wf h src = (case src of SrcRef a \<Rightarrow> a < length h | SrcObj ob \<Rightarrow> wf_obj (length h) ob)"

text \<open>
  Keys that every class writes as an ordinary property: not an array index, not
  \<open>length\<close>, not \<open>__proto__\<close>.
\<close>

definition plain_key :: "pkey \<Rightarrow> bool" where
  "plain_key k \<longleftrightarrow> \<not> is_array_index k \<and> k \<noteq> ''length'' \<and> k \<noteq> ''__proto__''"

text \<open>The pairs a source object holds under a list of keys, in that order.\<close>

definition src_pairs :: "jsobj \<Rightarrow> pkey list \<Rightarrow> (pkey \<times> jsval) list" where
  "src_pairs ob ks = map (\<lambda>k. (k, the (map_of (props ob) k))) ks"

subsection \<open>Writes of plain keys\<close>

lemma set_prop_plain:
  "plain_key k \<Longrightarrow> set_prop ob k v = Inr (ob\<lparr>props := AList.update k v (props ob)\<rparr>)"
  by (cases "cls ob") (auto simp add: set_prop_def ordinary_set_def plain_key_def)

lemma put_plain:
  assumes "a < length h" "plain_key k"
  shows "put h a k v = (Inr (), h[a := (h ! a)\<lparr>props := AList.update k v (props (h ! a))\<rparr>])"
proof -
  have lk: "heap_lookup h a = Some (h ! a)" using assms(1) by (simp add: heap_lookup_def)
  show ?thesis unfolding put_def lk option.case set_prop_plain[OF assms(2)] sum.case ..
qed

lemma get_own_ordinary:
  "cls ob = OrdinaryObj \<Longrightarrow> get_own ob k = map_of (props ob) k"
  by (simp add: get_own_def)

lemma enumerable_own_ordinary:
  "cls ob = OrdinaryObj \<Longrightarrow> enumerable_own ob k \<longleftrightarrow> k \<in> set (map fst (props ob))"
  by (simp add: enumerable_own_def get_own_def map_of_eq_None_iff)

lemma own_keys_ordinary_names:
  "cls ob = OrdinaryObj \<Longrightarrow> \<forall>k \<in> set (map fst (props ob)). \<not> is_array_index k \<Longrightarrow>
   own_keys ob = map fst (props ob)"
  by (simp add: own_keys_def index_keys_def name_keys_def filter_id_conv filter_empty_conv)

lemma assign_keys_plain:
  assumes "h ! b = ob" "b < length h" "a < length h" "b \<noteq> a"
    and "cls ob = OrdinaryObj" "distinct (map fst (props ob))"
    and "set qs \<subseteq> set (props ob)" "\<forall>k \<in> set (map fst qs). plain_key k"
  shows "assign_keys h a (SrcRef b) (map fst qs) =
         (Inr (), h[a := (h ! a)\<lparr>props := alist_merge (props (h ! a)) qs\<rparr>])"
  using assms
proof (induction qs arbitrary: h)
  case Nil
  then show ?case by simp
next
  case (Cons p qs)
  obtain k v where p: "p = (k, v)" by (cases p)
  with Cons.prems have mem: "(k, v) \<in> set (props ob)" and pk: "plain_key k" by auto
  with Cons.prems have own: "map_of (props ob) k = Some v" by simp
  let ?h1 = "h[a := (h ! a)\<lparr>props := AList.update k v (props (h ! a))\<rparr>]"
  have step: "put h a k v = (Inr (), ?h1)" using Cons.prems pk by (simp add: put_plain)
  have en: "enumerable_own ob k" using Cons.prems mem by (force simp add: enumerable_own_ordinary)
  have gv: "get_from_obj ob k = Inr v" using Cons.prems own by (simp add: get_from_obj_def get_own_ordinary)
  have lk: "src_obj h (SrcRef b) = Some ob" using Cons.prems by (simp add: src_obj_def heap_lookup_def)
  have "assign_keys h a (SrcRef b) (map fst (p # qs)) = assign_keys ?h1 a (SrcRef b) (map fst qs)"
    using p lk en gv step by simp
  also have "\<dots> = (Inr (), ?h1[a := (?h1 ! a)\<lparr>props := alist_merge (props (?h1 ! a)) qs\<rparr>])"
    using Cons.prems by (intro Cons.IH) auto
  also have "\<dots> = (Inr (), h[a := (h ! a)\<lparr>props := alist_merge (props (h ! a)) (p # qs)\<rparr>])"
    using Cons.prems p by simp
  finally show ?case .
qed


theorem object_assign_plain:
  assumes "a < length h" "b < length h" "b \<noteq> a"
    and "cls (h ! b) = OrdinaryObj" "distinct (map fst (props (h ! b)))"
    and "\<forall>k \<in> set (map fst (props (h ! b))). plain_key k"
  shows "object_assign h (JRef a) [JRef b] =
    (Inr (JRef a), h[a := (h ! a)\<lparr>props := alist_merge (props (h ! a)) (props (h ! b))\<rparr>])"
proof -
  have keys: "own_keys (h ! b) = map fst (props (h ! b))"
    using assms(4,6) by (simp add: own_keys_ordinary_names plain_key_def)
  have ak: "assign_keys h a (SrcRef b) (map fst (props (h ! b))) =
      (Inr (), h[a := (h ! a)\<lparr>props := alist_merge (props (h ! a)) (props (h ! b))\<rparr>])"
    by (rule assign_keys_plain) (use assms in auto)
  have src: "src_obj h (SrcRef b) = Some (h ! b)" using assms(2) by (simp add: src_obj_def heap_lookup_def)
  have "to_object h (JRef a) = (Inr a, h)" using assms(1) by (simp add: to_object_def)
  moreover have "source_of h (JRef b) = Inr (Some (SrcRef b))" using assms(2) by (simp add: source_of_def)
  ultimately show ?thesis using src keys ak by (simp add: object_assign_def)
qed

subsection \<open>Copying keys to an ordinary target\<close>

lemma assign_keys_append:
  "assign_keys h to src (ks1 @ ks2) = (case assign_keys h to src ks1 of
      (Inl e, h') \<Rightarrow> (Inl e, h') | (Inr _, h') \<Rightarrow> assign_keys h' to src ks2)"
  by (induction h to src ks1 rule: assign_keys.induct) (auto split: option.splits sum.splits prod.splits)

text \<open>
  Copying keys to an ordinary object writes each as a plain property, from a source
  whose object the writes to the target do not change.
\<close>

lemma assign_keys_to_ordinary:
  assumes "a < length h" "cls (h ! a) = OrdinaryObj" "\<And>x. src_obj (h[a := x]) src = Some ob"
    and "\<forall>(k, v) \<in> set qs. get_own ob k = Some v \<and> k \<noteq> ''length'' \<and> k \<noteq> ''__proto__''"
  shows "assign_keys h a src (map fst qs) =
         (Inr (), h[a := (h ! a)\<lparr>props := alist_merge (props (h ! a)) qs\<rparr>])"
  using assms
proof (induction qs arbitrary: h)
  case Nil
  then show ?case by simp
next
  case (Cons p qs)
  obtain k v where p: "p = (k, v)" by (cases p)
  with Cons.prems(4) have own: "get_own ob k = Some v" and kk: "k \<noteq> ''length''" "k \<noteq> ''__proto__''"
    by auto
  let ?h1 = "h[a := (h ! a)\<lparr>props := AList.update k v (props (h ! a))\<rparr>]"
  have step: "put h a k v = (Inr (), ?h1)" using Cons.prems(1,2) kk(2) by (rule put_ordinary)
  have en: "enumerable_own ob k" using own kk by (simp add: enumerable_own_def)
  have gv: "get_from_obj ob k = Inr v" using own by (simp add: get_from_obj_def)
  have lk: "src_obj h src = Some ob" using Cons.prems(3)[of "h ! a"] by simp
  have "assign_keys h a src (map fst (p # qs)) = assign_keys ?h1 a src (map fst qs)"
    using p lk en gv step by simp
  also have "\<dots> = (Inr (), ?h1[a := (?h1 ! a)\<lparr>props := alist_merge (props (?h1 ! a)) qs\<rparr>])"
    using Cons.prems by (intro Cons.IH) auto
  also have "\<dots> = (Inr (), h[a := (h ! a)\<lparr>props := alist_merge (props (h ! a)) (p # qs)\<rparr>])"
    using Cons.prems(1) p by simp
  finally show ?case .
qed

lemma src_pairs_keys [simp]: "map fst (src_pairs ob ks) = ks"
  by (simp add: src_pairs_def comp_def)

lemma src_pairs_ok:
  assumes "set ks \<subseteq> fst ` set (props ob)"
    and "\<And>k. k \<in> set ks \<Longrightarrow> get_own ob k = map_of (props ob) k \<and> k \<noteq> ''length'' \<and> k \<noteq> ''__proto__''"
  shows "\<forall>(k, v) \<in> set (src_pairs ob ks). get_own ob k = Some v \<and> k \<noteq> ''length'' \<and> k \<noteq> ''__proto__''"
proof (clarsimp simp add: src_pairs_def)
  fix k
  assume k: "k \<in> set ks"
  then have "map_of (props ob) k \<noteq> None" using assms(1) by (auto simp add: map_of_eq_None_iff)
  with assms(2)[OF k] show "get_own ob k = Some (the (map_of (props ob) k)) \<and> k \<noteq> ''length'' \<and> k \<noteq> ''__proto__''"
    by auto
qed

lemma assign_keys_array_source:
  assumes "b < length h" "a < length h" "b \<noteq> a" "cls (h ! a) = OrdinaryObj" "cls (h ! b) = ArrayObj n"
    and "''length'' \<notin> set (map fst (props (h ! b)))" "''__proto__'' \<notin> set (map fst (props (h ! b)))"
  shows "assign_keys h a (SrcRef b) (own_keys (h ! b)) = (Inr (), h[a := (h ! a)\<lparr>props :=
           alist_merge (props (h ! a)) (src_pairs (h ! b) (index_keys (map fst (props (h ! b)))
             @ name_keys (map fst (props (h ! b)))))\<rparr>])"
proof -
  let ?ob = "h ! b" and ?ks = "map fst (props (h ! b))"
  have src: "\<And>x. src_obj (h[a := x]) (SrcRef b) = Some ?ob"
    using assms(1,3) by (simp add: src_obj_def heap_lookup_def)
  have go: "get_own ?ob k = map_of (props ?ob) k \<and> k \<noteq> ''length'' \<and> k \<noteq> ''__proto__''"
    if "k \<in> set ks" "set ks \<subseteq> set ?ks" for k ks
    using that assms(5-7) by (auto simp add: get_own_def)
  have sub: "set (index_keys ?ks) \<subseteq> set ?ks" "set (name_keys ?ks) \<subseteq> set ?ks"
    by (auto simp add: index_keys_def name_keys_def)
  let ?h1 = "h[a := (h ! a)\<lparr>props := alist_merge (props (h ! a)) (src_pairs ?ob (index_keys ?ks))\<rparr>]"
  have k1: "assign_keys h a (SrcRef b) (index_keys ?ks) = (Inr (), ?h1)"
    using assign_keys_to_ordinary[OF assms(2,4) src src_pairs_ok] sub(1) go by simp
  have src1: "\<And>x. src_obj (?h1[a := x]) (SrcRef b) = Some ?ob" using src by simp
  have k2: "assign_keys ?h1 a (SrcRef b) (''length'' # name_keys ?ks)
      = assign_keys ?h1 a (SrcRef b) (name_keys ?ks)"
    using src1[of "?h1 ! a"] assms(5) by (simp add: enumerable_own_def)
  have k3: "assign_keys ?h1 a (SrcRef b) (name_keys ?ks) = (Inr (), ?h1[a := (?h1 ! a)\<lparr>props :=
      alist_merge (props (?h1 ! a)) (src_pairs ?ob (name_keys ?ks))\<rparr>])"
    using assign_keys_to_ordinary[of a ?h1, OF _ _ src1 src_pairs_ok] assms(2,4) sub(2) go by simp
  have ko: "own_keys ?ob = index_keys ?ks @ ''length'' # name_keys ?ks"
    using assms(5) by (simp add: own_keys_def Let_def)
  have "assign_keys h a (SrcRef b) (own_keys ?ob) = (Inr (), ?h1[a := (?h1 ! a)\<lparr>props :=
      alist_merge (props (?h1 ! a)) (src_pairs ?ob (name_keys ?ks))\<rparr>])"
    unfolding ko assign_keys_append k1 prod.case sum.case k2 k3 ..
  also have "\<dots> = (Inr (), h[a := (h ! a)\<lparr>props :=
      alist_merge (props (h ! a)) (src_pairs ?ob (index_keys ?ks) @ src_pairs ?ob (name_keys ?ks))\<rparr>])"
    using assms(2) by (simp add: alist_merge_append)
  finally show ?thesis by (simp add: src_pairs_def)
qed

lemma assign_keys_string_source:
  assumes "a < length h" "cls (h ! a) = OrdinaryObj" "length s < 2 ^ 32"
  shows "assign_keys h a (SrcObj \<lparr>cls = StringObj s, props = []\<rparr>) (own_keys \<lparr>cls = StringObj s, props = []\<rparr>)
    = (Inr (), h[a := (h ! a)\<lparr>props := alist_merge (props (h ! a))
                                  (map (\<lambda>i. (nat_str i, JStr [s ! i])) [0..<length s])\<rparr>])"
proof -
  let ?ob = "\<lparr>cls = StringObj s, props = []\<rparr> :: jsobj"
  let ?qs = "map (\<lambda>i. (nat_str i, JStr [s ! i])) [0..<length s]"
  have ok: "\<forall>(k, v) \<in> set ?qs. get_own ?ob k = Some v \<and> k \<noteq> ''length'' \<and> k \<noteq> ''__proto__''"
    using assms(3) by (auto simp add: get_own_def index_of_def)
  have "assign_keys h a (SrcObj ?ob) (map fst ?qs) = (Inr (), h[a := (h ! a)\<lparr>props := alist_merge (props (h ! a)) ?qs\<rparr>])"
    using assms(1,2) ok by (intro assign_keys_to_ordinary) (simp_all add: src_obj_def)
  moreover have "own_keys ?ob = map fst ?qs @ [''length'']"
    by (simp add: own_keys_def index_keys_def name_keys_def comp_def)
  moreover have "assign_keys h' a (SrcObj ?ob) [''length''] = (Inr (), h')" for h'
    by (simp add: src_obj_def enumerable_own_def get_own_def)
  ultimately show ?thesis by (simp add: assign_keys_append)
qed

subsection \<open>Frame and well-formedness\<close>

text \<open>
  The two loops of \<open>Object.assign\<close> change the heap only by the writes of \<open>put\<close>:
  a property of heaps that every write keeps holds after the loops.
\<close>

lemma assign_keys_invariant:
  assumes "assign_keys h to src ks = (r, h')" "I h"
    and step: "\<And>h k v sob r1 h1. I h \<Longrightarrow> src_obj h src = Some sob \<Longrightarrow>
                 get_from_obj sob k = Inr v \<Longrightarrow> put h to k v = (r1, h1) \<Longrightarrow> I h1"
  shows "I h'"
  using assms(1,2)
proof (induction ks arbitrary: h r)
  case Nil
  then show ?case by simp
next
  case (Cons k ks)
  show ?case
  proof (cases "src_obj h src")
    case None
    with Cons.prems show ?thesis by simp
  next
    case (Some sob)
    show ?thesis
    proof (cases "enumerable_own sob k \<and> (\<exists>v. get_from_obj sob k = Inr v)")
      case True
      then obtain v where en: "enumerable_own sob k" and g: "get_from_obj sob k = Inr v" by blast
      obtain r1 h1 where p: "put h to k v = (r1, h1)" by fastforce
      have "I h1" by (rule step[OF Cons.prems(2) Some g p])
      with Cons.prems(1) Cons.IH Some en g p show ?thesis by (cases r1) auto
    next
      case False
      with Cons.prems Cons.IH Some show ?thesis by (auto split: sum.splits if_splits)
    qed
  qed
qed

lemma assign_sources_invariant:
  assumes "assign_sources h to ss = (r, h')" "I h"
    and "\<And>h s src sob r1 h1. I h \<Longrightarrow> s \<in> set ss \<Longrightarrow> source_of h s = Inr (Some src) \<Longrightarrow>
           src_obj h src = Some sob \<Longrightarrow> assign_keys h to src (own_keys sob) = (r1, h1) \<Longrightarrow> I h1"
  shows "I h'"
  using assms
proof (induction ss arbitrary: h r)
  case Nil
  then show ?case by simp
next
  case (Cons s ss)
  have step: "I h1" if "I h0" "s' \<in> set ss" "source_of h0 s' = Inr (Some src)"
    "src_obj h0 src = Some sob" "assign_keys h0 to src (own_keys sob) = (r1, h1)" for h0 s' src sob r1 h1
    using that(2) by (intro Cons.prems(3)[OF that(1) _ that(3-5)]) simp
  show ?case
  proof (cases "\<exists>src sob. source_of h s = Inr (Some src) \<and> src_obj h src = Some sob")
    case True
    then obtain src sob where so: "source_of h s = Inr (Some src)" and sob: "src_obj h src = Some sob"
      by blast
    obtain r1 h1 where ak: "assign_keys h to src (own_keys sob) = (r1, h1)" by fastforce
    have "I h1" by (rule Cons.prems(3)[OF Cons.prems(2) _ so sob ak]) simp
    with Cons.prems(1) Cons.IH[OF _ _ step] so sob ak show ?thesis by (cases r1) auto
  next
    case False
    with Cons.prems(1,2) Cons.IH[OF _ _ step] show ?thesis
      by (auto split: sum.splits option.splits)
  qed
qed

lemma assign_keys_frame:
  assumes "assign_keys h to src ks = (r, h')"
  shows "length h' = length h \<and> (\<forall>b. b \<noteq> to \<longrightarrow> h' ! b = h ! b)"
  by (rule assign_keys_invariant[OF assms, where I = "\<lambda>h1. length h1 = length h \<and>
        (\<forall>b. b \<noteq> to \<longrightarrow> h1 ! b = h ! b)"]) (auto dest: put_frame)

lemma assign_sources_frame:
  assumes "assign_sources h to ss = (r, h')"
  shows "length h' = length h \<and> (\<forall>b. b \<noteq> to \<longrightarrow> h' ! b = h ! b)"
  by (rule assign_sources_invariant[OF assms, where I = "\<lambda>h1. length h1 = length h \<and>
        (\<forall>b. b \<noteq> to \<longrightarrow> h1 ! b = h ! b)"]) (auto dest: assign_keys_frame)

lemma object_assign_frame:
  assumes "object_assign h (JRef a) ss = (r, h')"
  shows "length h' = length h" and "\<And>b. b \<noteq> a \<Longrightarrow> h' ! b = h ! b"
proof -
  have "length h' = length h \<and> (\<forall>b. b \<noteq> a \<longrightarrow> h' ! b = h ! b)"
  proof (cases "a < length h")
    case True
    obtain r1 h1 where as: "assign_sources h a ss = (r1, h1)" by fastforce
    with True assms have "h' = h1"
      by (cases r1) (simp_all add: object_assign_def to_object_def)
    with as show ?thesis by (simp add: assign_sources_frame)
  next
    case False
    with assms show ?thesis by (simp add: object_assign_def to_object_def)
  qed
  then show "length h' = length h" and "\<And>b. b \<noteq> a \<Longrightarrow> h' ! b = h ! b" by simp_all
qed

lemma prim_obj_wf: "prim_obj v = Some ob \<Longrightarrow> wf_obj n ob"
  by (cases v) (auto simp add: wf_obj_def)

lemma get_own_val_ok: "wf_obj n ob \<Longrightarrow> get_own ob k = Some v \<Longrightarrow> val_ok n v"
  by (cases "cls ob")
     (auto simp add: get_own_def wf_obj_def list_all_iff split: if_splits dest!: map_of_SomeD)

lemma get_from_obj_val_ok: "wf_obj n ob \<Longrightarrow> get_from_obj ob k = Inr v \<Longrightarrow> val_ok n v"
  by (auto simp add: get_from_obj_def get_own_val_ok split: option.splits if_splits)

lemma src_obj_wf: "wf_heap h \<Longrightarrow> src_wf h src \<Longrightarrow> src_obj h src = Some ob \<Longrightarrow> wf_obj (length h) ob"
  by (cases src) (auto simp add: src_wf_def src_obj_def wf_heap_nth)

lemma src_wf_length: "length h' = length h \<Longrightarrow> src_wf h' src = src_wf h src"
  by (simp add: src_wf_def split: assign_src.split)

lemma source_of_wf:
  "source_of h s = Inr (Some src) \<Longrightarrow> val_ok (length h) s \<Longrightarrow> src_wf h src"
  by (cases s) (auto simp add: source_of_def src_wf_def wf_obj_def split: if_splits option.splits)

lemma assign_keys_wf:
  assumes "assign_keys h to src ks = (r, h')" "wf_heap h" "src_wf h src"
  shows "wf_heap h'"
proof -
  have "wf_heap h' \<and> length h' = length h"
  proof (rule assign_keys_invariant[OF assms(1), where I = "\<lambda>h1. wf_heap h1 \<and> length h1 = length h"])
    fix h1 k v sob r1 h2
    assume I: "wf_heap h1 \<and> length h1 = length h" and sob: "src_obj h1 src = Some sob"
      and g: "get_from_obj sob k = Inr v" and p: "put h1 to k v = (r1, h2)"
    have "src_wf h1 src" using I assms(3) src_wf_length[of h1 h src] by simp
    with I sob have wfo: "wf_obj (length h1) sob" by (blast intro: src_obj_wf)
    have "val_ok (length h1) v" using wfo g by (rule get_from_obj_val_ok)
    with I p show "wf_heap h2 \<and> length h2 = length h" by (simp add: put_wf)
  qed (use assms(2) in simp)
  then show ?thesis ..
qed

lemma assign_sources_wf:
  assumes "assign_sources h to ss = (r, h')" "wf_heap h" "list_all (val_ok (length h)) ss"
  shows "wf_heap h'"
proof -
  have "wf_heap h' \<and> length h' = length h"
  proof (rule assign_sources_invariant[OF assms(1), where I = "\<lambda>h1. wf_heap h1 \<and> length h1 = length h"])
    fix h1 s src sob r1 h2
    assume I: "wf_heap h1 \<and> length h1 = length h" and s: "s \<in> set ss"
      and so: "source_of h1 s = Inr (Some src)" and ak: "assign_keys h1 to src (own_keys sob) = (r1, h2)"
    have "val_ok (length h1) s" using I s assms(3) by (simp add: list_all_iff)
    with so have "src_wf h1 src" by (rule source_of_wf)
    with I have "wf_heap h2" by (intro assign_keys_wf[OF ak]) simp_all
    with I show "wf_heap h2 \<and> length h2 = length h" using assign_keys_frame[OF ak] by simp
  qed (use assms(2) in simp)
  then show ?thesis ..
qed

lemma to_object_wf:
  assumes "to_object h t = (Inr a, h1)" "wf_heap h" "val_ok (length h) t"
  shows "wf_heap h1" "a < length h1" "length h \<le> length h1"
proof -
  have "wf_heap h1 \<and> a < length h1 \<and> length h \<le> length h1"
  proof (cases "prim_obj t")
    case None
    with assms show ?thesis by (cases t) (auto simp add: to_object_def split: if_splits)
  next
    case (Some ob)
    then have t: "t \<noteq> JUndef" "t \<noteq> JNull" "\<forall>b. t \<noteq> JRef b" by auto
    with assms(1) Some have "h1 = h @ [ob]" "a = length h"
      by (cases t; simp add: to_object_def)+
    moreover have "wf_obj (Suc (length h)) ob" using Some by (rule prim_obj_wf)
    ultimately show ?thesis using assms(2) wf_heap_alloc[of h ob] by simp
  qed
  then show "wf_heap h1" "a < length h1" "length h \<le> length h1" by simp_all
qed

theorem object_assign_wf:
  assumes "object_assign h t ss = (r, h')" "wf_heap h" "list_all (val_ok (length h)) (t # ss)"
  shows "wf_heap h' \<and> (\<forall>v. r = Inr v \<longrightarrow> val_ok (length h') v)"
proof (cases "to_object h t")
  case (Pair r0 h1)
  show ?thesis
  proof (cases r0)
    case (Inl e)
    with assms Pair show ?thesis by (auto simp add: object_assign_def to_object_def split: if_splits jsval.splits option.splits)
  next
    case (Inr a)
    with Pair have ta: "to_object h t = (Inr a, h1)" by simp
    have wf1: "wf_heap h1" and a: "a < length h1" and mono: "length h \<le> length h1"
      using to_object_wf[OF ta assms(2)] assms(3) by simp_all
    obtain r2 h2 where as: "assign_sources h1 a ss = (r2, h2)" by fastforce
    have "list_all (val_ok (length h1)) ss"
      using assms(3) mono by (auto simp add: list_all_iff intro: val_ok_mono)
    then have wf2: "wf_heap h2" using as wf1 by (blast intro: assign_sources_wf)
    have len2: "length h2 = length h1" using as by (simp add: assign_sources_frame)
    from assms(1) ta as have "h' = h2 \<and> (r = Inl (projl r2) \<or> r = Inr (JRef a))"
      by (cases r2) (simp_all add: object_assign_def)
    with wf2 len2 a show ?thesis by auto
  qed
qed

lemma assign_sources_append:
  "assign_sources h to (ss1 @ ss2) = (case assign_sources h to ss1 of
      (Inl e, h') \<Rightarrow> (Inl e, h')
    | (Inr _, h') \<Rightarrow> assign_sources h' to ss2)"
  by (induction ss1 arbitrary: h) (auto split: sum.splits option.splits prod.splits)


text \<open>
  C17: \<open>Object.assign\<close> with several sources is the same as assigning the first
  sources and then, if that did not throw, the remaining ones to the same target:
  the sources are copied one after the other, later ones overriding earlier ones.
\<close>

theorem object_assign_sequential:
  assumes "a < length h"
  shows "object_assign h (JRef a) (ss1 @ ss2) = (case object_assign h (JRef a) ss1 of
      (Inl e, h') \<Rightarrow> (Inl e, h')
    | (Inr _, h') \<Rightarrow> object_assign h' (JRef a) ss2)"
proof -
  obtain r1 h1 where as: "assign_sources h a ss1 = (r1, h1)" by fastforce
  have "a < length h1" using assign_sources_frame[OF as] assms by simp
  with as assms show ?thesis
    by (cases r1) (simp_all add: object_assign_def to_object_def assign_sources_append)
qed


lemma assign_sources_nullish:
  "list_all (\<lambda>s. s = JUndef \<or> s = JNull) ss \<Longrightarrow> assign_sources h a ss = (Inr (), h)"
  by (induction ss) (auto simp add: source_of_def)

subsection \<open>Copying an ordinary source\<close>

text \<open>
  C6: copying an ordinary source with plain keys, \<open>Object.assign\<close> leaves the
  target with the source's value at every key of the source and its own value at
  every other key: a shared key is overwritten, never merged or appended. No other
  object changes.
\<close>

theorem object_assign_overwrites:
  assumes "a < length h" "b < length h" "b \<noteq> a"
    and "cls (h ! b) = OrdinaryObj" "distinct (map fst (props (h ! b)))"
    and "\<forall>k \<in> set (map fst (props (h ! b))). plain_key k"
  shows "\<exists>h'. object_assign h (JRef a) [JRef b] = (Inr (JRef a), h')
     \<and> map_of (props (h' ! a)) = map_of (props (h ! a)) ++ map_of (props (h ! b))
     \<and> (\<forall>c. c \<noteq> a \<longrightarrow> h' ! c = h ! c)"
  using object_assign_plain[OF assms] assms(1,5) by (simp add: map_of_alist_merge)


text \<open>
  C7: the keys of the target after \<open>Object.assign\<close> are its old keys in their
  order, followed by the source's new keys in the source's order.
\<close>

theorem object_assign_key_order:
  assumes "a < length h" "b < length h" "b \<noteq> a"
    and "cls (h ! b) = OrdinaryObj" "distinct (map fst (props (h ! b)))"
    and "\<forall>k \<in> set (map fst (props (h ! b))). plain_key k"
  shows "\<exists>h'. object_assign h (JRef a) [JRef b] = (Inr (JRef a), h')
     \<and> map fst (props (h' ! a)) = map fst (props (h ! a))
          @ filter (\<lambda>k. k \<notin> set (map fst (props (h ! a)))) (map fst (props (h ! b)))"
  using object_assign_plain[OF assms] assms(1,5) by (simp add: keys_alist_merge)


text \<open>
  C8: sources that are \<open>undefined\<close> or \<open>null\<close> are skipped: the heap is left as
  it was and the target is returned.
\<close>

theorem object_assign_skips_nullish:
  "a < length h \<Longrightarrow> list_all (\<lambda>s. s = JUndef \<or> s = JNull) ss \<Longrightarrow>
   object_assign h (JRef a) ss = (Inr (JRef a), h)"
  by (simp add: object_assign_def to_object_def assign_sources_nullish)


subsection \<open>Copying an array source\<close>

text \<open>
  C18: \<open>Object.assign({}, arr)\<close> copies the index keys of an array in ascending numeric
  order, whatever order they were created in, then its other keys in creation order,
  and skips the non-enumerable \<open>length\<close>: the new object's index keys come out
  strictly ascending.
\<close>

theorem object_assign_array_key_order:
  assumes "a < length h" "b < length h" "b \<noteq> a" "h ! a = new_object" "cls (h ! b) = ArrayObj n"
    and "distinct (map fst (props (h ! b)))" "''length'' \<notin> set (map fst (props (h ! b)))"
    and "''__proto__'' \<notin> set (map fst (props (h ! b)))"
  shows "\<exists>h'. object_assign h (JRef a) [JRef b] = (Inr (JRef a), h')
    \<and> map fst (props (h' ! a)) = sort_key index_of (filter is_array_index (map fst (props (h ! b))))
                                @ filter (\<lambda>k. \<not> is_array_index k) (map fst (props (h ! b)))
    \<and> sorted_wrt (<) (map index_of (filter is_array_index (map fst (props (h' ! a)))))"
proof -
  let ?ks = "map fst (props (h ! b))"
  let ?h' = "h[a := (h ! a)\<lparr>props := alist_merge (props (h ! a)) (src_pairs (h ! b) (index_keys ?ks @ name_keys ?ks))\<rparr>]"
  have cl: "cls (h ! a) = OrdinaryObj" using assms(4) by (simp add: new_object_def)
  have ak: "assign_keys h a (SrcRef b) (own_keys (h ! b)) = (Inr (), ?h')"
    using assign_keys_array_source[OF assms(2,1,3) cl assms(5,7,8)] .
  have src: "src_obj h (SrcRef b) = Some (h ! b)" using assms(2) by (simp add: src_obj_def heap_lookup_def)
  have "to_object h (JRef a) = (Inr a, h)" using assms(1) by (simp add: to_object_def)
  moreover have "source_of h (JRef b) = Inr (Some (SrcRef b))" using assms(2) by (simp add: source_of_def)
  ultimately have oa: "object_assign h (JRef a) [JRef b] = (Inr (JRef a), ?h')"
    using src ak by (simp add: object_assign_def)
  have keys: "map fst (props (?h' ! a)) = index_keys ?ks @ name_keys ?ks"
    using assms(1,4) distinct_index_name_keys[OF assms(6)]
    by (simp add: new_object_def keys_alist_merge)
  have "filter is_array_index (index_keys ?ks @ name_keys ?ks) = index_keys ?ks"
    by (simp add: index_keys_def name_keys_def)
  with keys index_keys_strict[OF assms(6)] oa show ?thesis
    by (simp add: index_keys_def name_keys_def)
qed

subsection \<open>Copying a string source\<close>

text \<open>
  C19: a string source is copied character by character: \<open>Object.assign({}, s)\<close>
  gives the new object the keys \<open>"0"\<close>, ..., \<open>"n-1"\<close> in that order, each mapped to
  the one-character string at that position, and not the wrapper's \<open>length\<close>.
\<close>

theorem object_assign_string_source:
  assumes "a < length h" "h ! a = new_object" "length s < 2 ^ 32"
  shows "object_assign h (JRef a) [JStr s]
    = (Inr (JRef a), h[a := \<lparr>cls = OrdinaryObj, props = map (\<lambda>i. (nat_str i, JStr [s ! i])) [0..<length s]\<rparr>])"
proof -
  have cl: "cls (h ! a) = OrdinaryObj" using assms(2) by (simp add: new_object_def)
  have d: "distinct (map fst (map (\<lambda>i. (nat_str i, JStr [s ! i])) [0..<length s]))"
    by (simp add: comp_def distinct_map inj_on_subset[OF nat_str_inj subset_UNIV])
  have "to_object h (JRef a) = (Inr a, h)" using assms(1) by (simp add: to_object_def)
  moreover have "source_of h (JStr s) = Inr (Some (SrcObj \<lparr>cls = StringObj s, props = []\<rparr>))"
    by (simp add: source_of_def)
  ultimately show ?thesis
    using assign_keys_string_source[OF assms(1) cl assms(3)] assms(2) d
    by (simp add: object_assign_def src_obj_def new_object_def alist_merge_fresh)
qed

subsection \<open>A string target\<close>

text \<open>
  C20: a primitive string target is wrapped in a new \<open>String\<close> object whose
  character indices are read-only, so \<open>Object.assign(s, arr)\<close> with an array source
  whose index keys lie within the string throws a \<open>TypeError\<close> at the first of them;
  the wrapper stays allocated and the source is unchanged.
\<close>

theorem object_assign_string_target_throws:
  assumes "b < length h" "cls (h ! b) = ArrayObj n"
    and "k \<in> set (map fst (props (h ! b)))" "is_array_index k"
    and "\<forall>k \<in> set (map fst (props (h ! b))). is_array_index k \<longrightarrow> index_of k < length s"
  shows "object_assign h (JStr s) [JRef b] = (Inl TypeError, h @ [\<lparr>cls = StringObj s, props = []\<rparr>])"
proof -
  let ?ks = "map fst (props (h ! b))" and ?w = "\<lparr>cls = StringObj s, props = []\<rparr>"
  let ?h1 = "h @ [?w]"
  have "k \<in> set (index_keys ?ks)" using assms(3,4) by (simp add: index_keys_def)
  then obtain k0 rest where ik: "index_keys ?ks = k0 # rest" by (cases "index_keys ?ks") auto
  then have k0: "k0 \<in> set ?ks" "is_array_index k0"
    using set_sort[of index_of "filter is_array_index ?ks"] by (auto simp add: index_keys_def)
  then have ne: "k0 \<noteq> ''length''" by (auto simp add: is_array_index_def canonical_nat_str_def is_digit_def)
  obtain v where v: "map_of (props (h ! b)) k0 = Some v"
    using k0(1) by (cases "map_of (props (h ! b)) k0") (auto simp add: map_of_eq_None_iff)
  have own: "get_own (h ! b) k0 = Some v" using assms(2) ne v by (simp add: get_own_def)
  have en: "enumerable_own (h ! b) k0" using own ne by (simp add: enumerable_own_def)
  have gv: "get_from_obj (h ! b) k0 = Inr v" using own by (simp add: get_from_obj_def)
  have lw: "heap_lookup ?h1 (length h) = Some ?w" by (simp add: heap_lookup_def)
  have sp: "set_prop ?w k0 v = Inl TypeError"
    using k0 assms(5) by (intro set_prop_string_index) auto
  have put: "put ?h1 (length h) k0 v = (Inl TypeError, ?h1)"
    unfolding put_def lw option.case sp sum.case ..
  have lb: "src_obj ?h1 (SrcRef b) = Some (h ! b)" using assms(1) by (simp add: src_obj_def heap_lookup_def)
  have ok: "own_keys (h ! b) = k0 # (rest @ ''length'' # name_keys ?ks)"
    using assms(2) ik by (simp add: own_keys_def Let_def)
  have ak: "assign_keys ?h1 (length h) (SrcRef b) (own_keys (h ! b)) = (Inl TypeError, ?h1)"
    unfolding ok assign_keys.simps(2) lb option.case using en gv put by simp
  have "to_object h (JStr s) = (Inr (length h), ?h1)" by (simp add: to_object_def alloc_def)
  moreover have "source_of ?h1 (JRef b) = Inr (Some (SrcRef b))" using assms(1) by (simp add: source_of_def)
  ultimately show ?thesis using lb ak by (simp add: object_assign_def)
qed

theorem object_assign_overwrites_witness:
  "\<exists>h'. object_assign [\<lparr>cls = OrdinaryObj, props = [(''timeout'', JNum 5000), (''testMatch'', JStr ''a'')]\<rparr>, \<lparr>cls = OrdinaryObj, props = [(''timeout'', JNum 10000), (''verbose'', JBool True)]\<rparr>] (JRef 0) [JRef 1] = (Inr (JRef 0), h')
     \<and> map_of (props (h' ! 0)) = map_of (props ([\<lparr>cls = OrdinaryObj, props = [(''timeout'', JNum 5000), (''testMatch'', JStr ''a'')]\<rparr>, \<lparr>cls = OrdinaryObj, props = [(''timeout'', JNum 10000), (''verbose'', JBool True)]\<rparr>] ! 0)) ++ map_of (props ([\<lparr>cls = OrdinaryObj, props = [(''timeout'', JNum 5000), (''testMatch'', JStr ''a'')]\<rparr>, \<lparr>cls = OrdinaryObj, props = [(''timeout'', JNum 10000), (''verbose'', JBool True)]\<rparr>] ! 1))
     \<and> (\<forall>c. c \<noteq> 0 \<longrightarrow> h' ! c = [\<lparr>cls = OrdinaryObj, props = [(''timeout'', JNum 5000), (''testMatch'', JStr ''a'')]\<rparr>, \<lparr>cls = OrdinaryObj, props = [(''timeout'', JNum 10000), (''verbose'', JBool True)]\<rparr>] ! c)"
  by (rule object_assign_overwrites) code_simp+


theorem object_assign_key_order_witness:
  "\<exists>h'. object_assign [\<lparr>cls = OrdinaryObj, props = [(''timeout'', JNum 5000), (''testMatch'', JStr ''a'')]\<rparr>, \<lparr>cls = OrdinaryObj, props = [(''timeout'', JNum 10000), (''verbose'', JBool True)]\<rparr>] (JRef 0) [JRef 1] = (Inr (JRef 0), h')
     \<and> map fst (props (h' ! 0)) = map fst (props ([\<lparr>cls = OrdinaryObj, props = [(''timeout'', JNum 5000), (''testMatch'', JStr ''a'')]\<rparr>, \<lparr>cls = OrdinaryObj, props = [(''timeout'', JNum 10000), (''verbose'', JBool True)]\<rparr>] ! 0))
          @ filter (\<lambda>k. k \<notin> set (map fst (props ([\<lparr>cls = OrdinaryObj, props = [(''timeout'', JNum 5000), (''testMatch'', JStr ''a'')]\<rparr>, \<lparr>cls = OrdinaryObj, props = [(''timeout'', JNum 10000), (''verbose'', JBool True)]\<rparr>] ! 0)))) (map fst (props ([\<lparr>cls = OrdinaryObj, props = [(''timeout'', JNum 5000), (''testMatch'', JStr ''a'')]\<rparr>, \<lparr>cls = OrdinaryObj, props = [(''timeout'', JNum 10000), (''verbose'', JBool True)]\<rparr>] ! 1)))"
  by (rule object_assign_key_order) code_simp+


theorem object_assign_skips_nullish_witness:
  "object_assign [\<lparr>cls = OrdinaryObj, props = [(''timeout'', JNum 5000), (''testMatch'', JStr ''a'')]\<rparr>, \<lparr>cls = OrdinaryObj, props = [(''timeout'', JNum 10000), (''verbose'', JBool True)]\<rparr>] (JRef 0) [JNull, JUndef] = (Inr (JRef 0), [\<lparr>cls = OrdinaryObj, props = [(''timeout'', JNum 5000), (''testMatch'', JStr ''a'')]\<rparr>, \<lparr>cls = OrdinaryObj, props = [(''timeout'', JNum 10000), (''verbose'', JBool True)]\<rparr>])"
  by (rule object_assign_skips_nullish) simp_all


theorem object_assign_sequential_witness:
  "object_assign [\<lparr>cls = OrdinaryObj, props = [(''timeout'', JNum 5000)]\<rparr>, \<lparr>cls = OrdinaryObj, props = [(''timeout'', JNum 10000)]\<rparr>, \<lparr>cls = OrdinaryObj, props = [(''verbose'', JBool True)]\<rparr>] (JRef 0) ([JRef 1] @ [JRef 2]) = (case object_assign [\<lparr>cls = OrdinaryObj, props = [(''timeout'', JNum 5000)]\<rparr>, \<lparr>cls = OrdinaryObj, props = [(''timeout'', JNum 10000)]\<rparr>, \<lparr>cls = OrdinaryObj, props = [(''verbose'', JBool True)]\<rparr>] (JRef 0) [JRef 1] of
      (Inl e, h') \<Rightarrow> (Inl e, h')
    | (Inr _, h') \<Rightarrow> object_assign h' (JRef 0) [JRef 2])"
  by (rule object_assign_sequential) simp

theorem object_assign_array_key_order_witness:
  "\<exists>h'. object_assign [new_object, \<lparr>cls = ArrayObj 2, props = [(''1'', JStr ''b''), (''0'', JStr ''a''), (''x'', JNull)]\<rparr>] (JRef 0) [JRef 1] = (Inr (JRef 0), h')
    \<and> map fst (props (h' ! 0)) = [''0'', ''1'', ''x'']"
proof -
  have "sort_key index_of (filter is_array_index [''1'', ''0'', ''x'']) @ filter (\<lambda>k. \<not> is_array_index k) [''1'', ''0'', ''x'']
      = [''0'', ''1'', ''x'']" by code_simp
  with object_assign_array_key_order[of 0 "[new_object, \<lparr>cls = ArrayObj 2, props = [(''1'', JStr ''b''), (''0'', JStr ''a''), (''x'', JNull)]\<rparr>]" 1 2]
  show ?thesis by auto
qed

theorem object_assign_string_source_witness:
  "object_assign [new_object] (JRef 0) [JStr ''ab''] =
     (Inr (JRef 0), [\<lparr>cls = OrdinaryObj, props = [(''0'', JStr ''a''), (''1'', JStr ''b'')]\<rparr>])"
proof -
  have "map (\<lambda>i. (nat_str i, JStr [''ab'' ! i])) [0..<length ''ab''] = [(''0'', JStr ''a''), (''1'', JStr ''b'')]"
    by code_simp
  with object_assign_string_source[of 0 "[new_object]" "''ab''"] show ?thesis by simp
qed

theorem object_assign_string_target_throws_witness:
  "object_assign [\<lparr>cls = ArrayObj 1, props = [(''0'', JStr ''z'')]\<rparr>] (JStr ''ab'') [JRef 0]
     = (Inl TypeError, [\<lparr>cls = ArrayObj 1, props = [(''0'', JStr ''z'')]\<rparr>, \<lparr>cls = StringObj ''ab'', props = []\<rparr>])"
proof -
  have "is_array_index ''0''" by code_simp
  moreover have "index_of ''0'' < length ''ab''" by code_simp
  ultimately show ?thesis
    using object_assign_string_target_throws[of 0 "[\<lparr>cls = ArrayObj 1, props = [(''0'', JStr ''z'')]\<rparr>]" 1 "''0''" "''ab''"]
    by simp
qed

end
