(* ===== verification/JS_Expr.thy ===== *)
theory JS_Expr
  imports Object_Assign
begin

text \<open>
  The expressions of \<open>src/jest.config.js\<close>: string literals, the member access
  \<open>jestConfig.coveragePathIgnorePatterns\<close>, the array literal with a spread element
  (lines 4-8) and the object literal (lines 3-9). An expression reads and may
  allocate in the heap and either yields a value or throws; it is a function from the
  heap to the result and the new heap, evaluated in the order ECMAScript prescribes.
\<close>

type_synonym expr = "heap \<Rightarrow> jsval res \<times> heap"

definition lit :: "jsval \<Rightarrow> expr" where
  "lit v h = (Inr v, h)"

text \<open>\<open>v.k\<close> where \<open>v\<close> is the value of a constant binding.\<close>

definition member :: "jsval \<Rightarrow> pkey \<Rightarrow> expr" where
  "member v k h = (get_value h v k, h)"

text \<open>
  The element an array iterator yields at index \<open>i\<close>: \<open>Get(array, i)\<close>; a hole reads
  \<open>undefined\<close>, as \<open>Array.prototype\<close> has no index properties.
\<close>

definition array_elem :: "jsobj \<Rightarrow> nat \<Rightarrow> jsval" where
  "array_elem ob i = (case get_own ob (nat_str i) of Some v \<Rightarrow> v | None \<Rightarrow> JUndef)"

text \<open>
  What a spread element \<open>...v\<close> yields (ECMAScript 13.2.4.1, \<open>GetIterator\<close>): the
  elements of an array from 0 to \<open>length - 1\<close>, the characters of a string; every
  other value has no \<open>Symbol.iterator\<close> method and throws a \<open>TypeError\<close>. Characters
  are taken as code points (ASCII strings). The array is not modified while it is
  spread, so its elements are read in one go.
\<close>

fun iterate :: "heap \<Rightarrow> jsval \<Rightarrow> jsval list res" where
  "iterate h (JStr s) = Inr (map (\<lambda>c. JStr [c]) s)"
| "iterate h (JRef a) = (case heap_lookup h a of
      None \<Rightarrow> Inl (NotModelled ''dangling reference'')
    | Some ob \<Rightarrow> (case cls ob of
        ArrayObj n \<Rightarrow> Inr (map (array_elem ob) [0..<n])
      | StringObj s \<Rightarrow> Inr (map (\<lambda>c. JStr [c]) s)
      | _ \<Rightarrow> Inl TypeError))"
| "iterate h _ = Inl TypeError"

datatype arr_elem = Elem expr | Spread expr

text \<open>
  \<open>ArrayAccumulation\<close> (ECMAScript 13.2.4.1): the elements in order. The array being
  built is not reachable from the element expressions, so its elements are stored
  once all are known.
\<close>

fun accumulate :: "heap \<Rightarrow> arr_elem list \<Rightarrow> jsval list \<Rightarrow> jsval list res \<times> heap" where
  "accumulate h [] acc = (Inr acc, h)"
| "accumulate h (Elem e # es) acc = (case e h of
      (Inl err, h') \<Rightarrow> (Inl err, h')
    | (Inr v, h') \<Rightarrow> accumulate h' es (acc @ [v]))"
| "accumulate h (Spread e # es) acc = (case e h of
      (Inl err, h') \<Rightarrow> (Inl err, h')
    | (Inr v, h') \<Rightarrow> (case iterate h' v of
        Inl err \<Rightarrow> (Inl err, h')
      | Inr vs \<Rightarrow> accumulate h' es (acc @ vs)))"

text \<open>
  The array \<open>ArrayAccumulation\<close> leaves after defining the given elements at indices
  \<open>0, 1, ...\<close> with \<open>CreateDataPropertyOrThrow\<close>: a key below \<open>2^32 - 1\<close> is an
  array index and grows \<open>length\<close> past it (ECMAScript 10.4.2.1); a key from
  \<open>2^32 - 1\<close> on is not, and is an ordinary property. The length is therefore the
  number of elements, saturated at \<open>2^32 - 1\<close>; nothing throws.
\<close>

definition array_of_list :: "jsval list \<Rightarrow> jsobj" where
  "array_of_list vs = \<lparr>cls = ArrayObj (min (length vs) (2 ^ 32 - 1)),
                        props = zip (map nat_str [0..<length vs]) vs\<rparr>"

text \<open>
  An array literal without a trailing elision (ECMAScript 13.2.4.2): \<open>ArrayCreate(0)\<close>
  first, then the elements; no \<open>Set(array, "length", n)\<close> follows, so the literal
  throws only when an element does.
\<close>

definition array_lit :: "arr_elem list \<Rightarrow> expr" where
  "array_lit es h = (case alloc (array_of_list []) h of
      (a, h1) \<Rightarrow> (case accumulate h1 es [] of
        (Inl err, h2) \<Rightarrow> (Inl err, h2)
      | (Inr vs, h2) \<Rightarrow> (Inr (JRef a), h2[a := array_of_list vs])))"

text \<open>
  Property definitions of an object literal, in order (ECMAScript 13.2.5.4):
  \<open>CreateDataPropertyOrThrow\<close> on the new object. A literal \<open>__proto__: v\<close> sets
  the prototype instead, which is not modelled.
\<close>

fun define_props :: "addr \<Rightarrow> (pkey \<times> expr) list \<Rightarrow> heap \<Rightarrow> jsval res \<times> heap" where
  "define_props a [] h = (Inr (JRef a), h)"
| "define_props a ((k, e) # ps) h = (case e h of
      (Inl err, h') \<Rightarrow> (Inl err, h')
    | (Inr v, h') \<Rightarrow>
        if k = ''__proto__'' then (Inl (NotModelled ''__proto__ in an object literal''), h')
        else define_props a ps (h'[a := (h' ! a)\<lparr>props := AList.update k v (props (h' ! a))\<rparr>]))"

text \<open>An object literal: \<open>OrdinaryObjectCreate\<close> first, then its properties.\<close>

definition object_lit :: "(pkey \<times> expr) list \<Rightarrow> expr" where
  "object_lit ps h = (case alloc new_object h of (a, h1) \<Rightarrow> define_props a ps h1)"

declare lit_def [js_simps] member_def [js_simps] array_lit_def [js_simps] object_lit_def [js_simps]

subsection \<open>Arrays built from lists, spreading, member reads\<close>

lemma map_of_array_props:
  "i < length vs \<Longrightarrow> map_of (zip (map nat_str [0..<length vs]) vs) (nat_str i) = Some (vs ! i)"
  using map_of_zip_nth[of "map nat_str [0..<length vs]" vs i] nat_str_inj
  by (simp add: distinct_map inj_on_subset)

lemma array_elem_of_list: "i < length vs \<Longrightarrow> array_elem (array_of_list vs) i = vs ! i"
  by (simp add: array_elem_def array_of_list_def get_own_def map_of_array_props)

lemma array_of_list_cls: "length vs < 2 ^ 32 \<Longrightarrow> cls (array_of_list vs) = ArrayObj (length vs)"
  by (simp add: array_of_list_def)

lemma elements_array_of_list: "map (array_elem (array_of_list vs)) [0..<length vs] = vs"
  by (rule nth_equalityI) (simp_all add: array_elem_of_list)

theorem iterate_array_of_list:
  "a < length h \<Longrightarrow> h ! a = array_of_list vs \<Longrightarrow> length vs < 2 ^ 32 \<Longrightarrow> iterate h (JRef a) = Inr vs"
proof -
  assume "length vs < 2 ^ 32"
  then have "cls (array_of_list vs) = ArrayObj (length vs)" by (rule array_of_list_cls)
  moreover assume "a < length h" "h ! a = array_of_list vs"
  ultimately show ?thesis by (simp add: heap_lookup_def elements_array_of_list)
qed

lemma iterate_append: "iterate h v = Inr xs \<Longrightarrow> iterate (h @ hs) v = Inr xs"
  by (cases v) (auto simp add: heap_lookup_def split: if_splits objclass.splits)

lemma accumulate_lits:
  "accumulate h (map (\<lambda>v. Elem (lit v)) vs) acc = (Inr (acc @ vs), h)"
  by (induction vs arbitrary: acc) (simp_all add: js_simps)

lemma get_own_plain: "plain_key k \<Longrightarrow> get_own ob k = map_of (props ob) k"
  by (cases "cls ob") (auto simp add: get_own_def plain_key_def)

subsection \<open>Values read from a well-formed heap\<close>

lemma get_value_obj:
  "val_ok (length h) v \<Longrightarrow> get_value h v k = Inr r \<Longrightarrow>
   \<exists>ob. ((\<exists>a. v = JRef a \<and> a < length h \<and> ob = h ! a) \<or> prim_obj v = Some ob) \<and> get_from_obj ob k = Inr r"
  by (cases v) (auto simp add: heap_lookup_def split: if_splits option.splits)

lemma get_value_val_ok:
  assumes "wf_heap h" "val_ok (length h) v" "get_value h v k = Inr r"
  shows "val_ok (length h) r"
proof -
  obtain ob where ob: "(\<exists>a. v = JRef a \<and> a < length h \<and> ob = h ! a) \<or> prim_obj v = Some ob"
    and g: "get_from_obj ob k = Inr r"
    using get_value_obj[OF assms(2,3)] by blast
  from ob assms(1) have "wf_obj (length h) ob"
    by (auto intro: wf_heap_nth prim_obj_wf)
  with g show ?thesis by (rule_tac get_from_obj_val_ok)
qed

lemma array_elem_val_ok: "wf_obj n ob \<Longrightarrow> val_ok n (array_elem ob i)"
  by (auto simp add: array_elem_def get_own_val_ok split: option.splits)

lemma iterate_val_ok:
  "wf_heap h \<Longrightarrow> iterate h v = Inr xs \<Longrightarrow> list_all (val_ok (length h)) xs"
  by (cases v) (auto simp add: heap_lookup_def list_all_iff array_elem_val_ok wf_heap_nth
      split: if_splits objclass.splits)

lemma wf_array_of_list:
  assumes "list_all (val_ok n) vs"
  shows "wf_obj n (array_of_list vs)"
proof -
  have d: "distinct (map fst (zip (map nat_str [0..<length vs]) vs))"
    by (simp add: distinct_map inj_on_subset[OF nat_str_inj subset_UNIV])
  have v: "list_all (\<lambda>p. val_ok n (snd p)) (zip (map nat_str [0..<length vs]) vs)"
    using assms(1) by (auto simp add: list_all_iff set_zip)
  have "class_ok (ArrayObj (min (length vs) (2 ^ 32 - 1))) (map nat_str [0..<length vs])"
    by (auto simp add: list_all_iff index_of_def nat_str_not_length[symmetric])
  with d v show ?thesis by (simp add: wf_obj_def array_of_list_def)
qed

lemma wf_empty_array [simp]: "wf_obj n (array_of_list [])"
  by (simp add: wf_obj_def array_of_list_def)

subsection \<open>Array literals and spread\<close>

text \<open>
  C9: an array literal of values, evaluated and then spread, gives back its
  values in order: the array is allocated at the next address and iterates to them.
\<close>

theorem array_literal_roundtrip:
  assumes "length vs < 2 ^ 32"
  shows "\<exists>h'. array_lit (map (\<lambda>v. Elem (lit v)) vs) h = (Inr (JRef (length h)), h')
           \<and> iterate h' (JRef (length h)) = Inr vs"
proof -
  have "array_lit (map (\<lambda>v. Elem (lit v)) vs) h = (Inr (JRef (length h)), h @ [array_of_list vs])"
    by (simp add: js_simps accumulate_lits del: accumulate.simps)
  moreover have "iterate (h @ [array_of_list vs]) (JRef (length h)) = Inr vs"
    using assms by (intro iterate_array_of_list) simp_all
  ultimately show ?thesis by blast
qed


theorem array_literal_roundtrip_witness:
  "\<exists>h'. array_lit (map (\<lambda>v. Elem (lit v)) [JStr ''a'', JNum 1]) [] = (Inr (JRef (length ([] :: heap))), h')
     \<and> iterate h' (JRef (length ([] :: heap))) = Inr [JStr ''a'', JNum 1]"
  by (rule array_literal_roundtrip) simp


end
