(* ===== verification/Compose_Spec.thy ===== *)
theory Compose_Spec
  imports JS_Expr
begin

text \<open>
  The contract the specification gives the configuration composer,
  \<open>compose(base, overrides)\<close>, over abstract configurations: a key maps to an ordered
  sequence or to a scalar (a nested configuration is a scalar here, as the merge is
  shallow). For every key of the overrides, a sequence in the base gets the override's
  elements appended, a missing base key counts as the empty sequence, and anything
  else is replaced; every other key keeps its base value. The abstraction
  \<open>abs_config\<close> reads a configuration object of the heap as such a configuration: an
  array value as the sequence of its elements, every other value as a scalar. The
  refinement theorems relating line 3 of \<open>src/jest.config.js\<close> to \<open>compose\<close> are
  in \<open>Jest_Config\<close>, beside the definitions of the module.
\<close>

datatype aval = ASeq "jsval list" | AScalar jsval

type_synonym aconfig = "pkey \<rightharpoonup> aval"

definition compose :: "aconfig \<Rightarrow> aconfig \<Rightarrow> aconfig" where
  "compose base overrides k = (case overrides k of
      None \<Rightarrow> base k
    | Some (AScalar v) \<Rightarrow> Some (AScalar v)
    | Some (ASeq ys) \<Rightarrow> (case base k of
        Some (ASeq xs) \<Rightarrow> Some (ASeq (xs @ ys))
      | _ \<Rightarrow> Some (ASeq ys)))"

definition abs_val :: "heap \<Rightarrow> jsval \<Rightarrow> aval" where
  "abs_val h v = (case v of
      JRef a \<Rightarrow> (case heap_lookup h a of
        Some ob \<Rightarrow> (case cls ob of ArrayObj n \<Rightarrow> ASeq (map (array_elem ob) [0..<n]) | _ \<Rightarrow> AScalar v)
      | None \<Rightarrow> AScalar v)
    | _ \<Rightarrow> AScalar v)"

definition abs_config :: "heap \<Rightarrow> addr \<Rightarrow> aconfig" where
  "abs_config h b k = map_option (abs_val h) (map_of (props (h ! b)) k)"

subsection \<open>Arrays read abstractly\<close>

lemma abs_val_array_of_list:
  "a < length h \<Longrightarrow> h ! a = array_of_list vs \<Longrightarrow> length vs < 2 ^ 32 \<Longrightarrow> abs_val h (JRef a) = ASeq vs"
proof -
  assume "length vs < 2 ^ 32"
  then have "cls (array_of_list vs) = ArrayObj (length vs)" by (rule array_of_list_cls)
  moreover assume "a < length h" "h ! a = array_of_list vs"
  ultimately show ?thesis by (simp add: abs_val_def heap_lookup_def elements_array_of_list)
qed

end
