(* ===== verification/Jest_Config.thy ===== *)
theory Jest_Config
  imports Modules Compose_Spec
begin

text \<open>
  The module \<open>src/jest.config.js\<close>:
  \<^verbatim>\<open>
  const jestConfig = require('kcd-scripts/jest')
  module.exports = Object.assign(jestConfig, {
    coveragePathIgnorePatterns: [
      ...jestConfig.coveragePathIgnorePatterns,
      '.macro.js$',
      '<rootDir>/src/stateChangeTypes.js',
    ],
  })
  \<close>
  The shared configuration of \<open>kcd-scripts/jest\<close> is an external module: its body is
  a parameter of the model (any function on the runtime state).
\<close>

definition cpip :: pkey where
  "cpip = ''coveragePathIgnorePatterns''"

definition macro_pattern :: string where
  "macro_pattern = ''.macro.js$''"

definition state_change_pattern :: string where
  "state_change_pattern = ''<rootDir>/src/stateChangeTypes.js''"

definition extra_patterns :: "jsval list" where
  "extra_patterns = [JStr macro_pattern, JStr state_change_pattern]"

definition kcd_jest :: string where
  "kcd_jest = ''kcd-scripts/jest''"

definition jest_config_id :: string where
  "jest_config_id = ''jest.config.js''"

text \<open>The override directive of lines 4-8: two patterns appended to the sequence.\<close>

definition config_override_spec :: aconfig where
  "config_override_spec = [cpip \<mapsto> ASeq extra_patterns]"

text \<open>The object literal of lines 3-9, for the value bound to \<open>jestConfig\<close>.\<close>

definition config_overrides :: "jsval \<Rightarrow> expr" where
  "config_overrides jestConfig = object_lit
     [(cpip, array_lit [Spread (member jestConfig cpip),
                        Elem (lit (JStr macro_pattern)),
                        Elem (lit (JStr state_change_pattern))])]"

text \<open>
  The right-hand side of line 3, \<open>Object.assign(jestConfig, {...})\<close>: the arguments
  are evaluated left to right (reading the binding \<open>jestConfig\<close> has no effect),
  then the built-in is called.
\<close>

definition config_exports :: "jsval \<Rightarrow> expr" where
  "config_exports jestConfig h = (case config_overrides jestConfig h of
      (Inl e, h') \<Rightarrow> (Inl e, h')
    | (Inr src, h') \<Rightarrow> object_assign h' jestConfig [src])"

text \<open>The module body: line 1, then the assignment to \<open>module.exports\<close> of line 3.\<close>

definition jest_config_body :: "require_fn \<Rightarrow> string \<Rightarrow> module_body" where
  "jest_config_body req self st = (case req kcd_jest st of
      (Inl e, st1) \<Rightarrow> (Inl e, st1)
    | (Inr jestConfig, st1) \<Rightarrow> (case config_exports jestConfig (rheap st1) of
        (Inl e, h2) \<Rightarrow> (Inl e, st1\<lparr>rheap := h2\<rparr>)
      | (Inr v, h2) \<Rightarrow> (Inr (), set_exports self v (st1\<lparr>rheap := h2\<rparr>))))"

text \<open>
  The heap after a successful evaluation of line 3 on the base object at \<open>b\<close> whose
  patterns spread to \<open>xs\<close>: the object literal and the new array are appended, and
  the base object's \<open>coveragePathIgnorePatterns\<close> now refers to the new array.
\<close>

definition patched_heap :: "heap \<Rightarrow> addr \<Rightarrow> jsval list \<Rightarrow> heap" where
  "patched_heap h b xs =
     (h @ [\<lparr>cls = OrdinaryObj, props = [(cpip, JRef (Suc (length h)))]\<rparr>,
           array_of_list (xs @ extra_patterns)])
       [b := (h ! b)\<lparr>props := AList.update cpip (JRef (Suc (length h))) (props (h ! b))\<rparr>]"

text \<open>
  Loading the configuration the way Jest does, \<open>require\<close> of the config file, with
  \<open>ext\<close> the bodies of the other modules (here \<open>kcd-scripts/jest\<close>).
\<close>

definition load_jest_config :: "(string \<Rightarrow> module_body) \<Rightarrow> runtime \<Rightarrow> jsval res \<times> runtime" where
  "load_jest_config ext st =
     require_module jest_config_id
       (jest_config_body (\<lambda>m. require_module m (ext m)) jest_config_id) st"

subsection \<open>Evaluation of line 3\<close>

lemma plain_key_cpip [simp]: "plain_key cpip"
  by (simp add: plain_key_def cpip_def is_array_index_def canonical_nat_str_def is_digit_def)

lemma config_array_eq:
  assumes "get_value (h @ [array_of_list []]) v cpip = Inr pv"
    and "iterate (h @ [array_of_list []]) pv = Inr xs"
  shows "array_lit [Spread (member v cpip), Elem (lit (JStr macro_pattern)),
                    Elem (lit (JStr state_change_pattern))] h =
         (Inr (JRef (length h)), h @ [array_of_list (xs @ extra_patterns)])"
proof -
  let ?h1 = "h @ [array_of_list []]"
  have "accumulate ?h1 [Spread (member v cpip), Elem (lit (JStr macro_pattern)),
          Elem (lit (JStr state_change_pattern))] [] = (Inr (xs @ extra_patterns), ?h1)"
    using assms accumulate_lits[of ?h1 "[JStr macro_pattern, JStr state_change_pattern]" xs]
    by (simp add: member_def extra_patterns_def)
  then show ?thesis
    by (simp add: js_simps extra_patterns_def del: accumulate.simps)
qed

lemma config_array_ok:
  assumes "b < length h" "map_of (props (h ! b)) cpip = Some pv" "iterate h pv = Inr xs"
  shows "array_lit [Spread (member (JRef b) cpip), Elem (lit (JStr macro_pattern)),
                    Elem (lit (JStr state_change_pattern))] h =
         (Inr (JRef (length h)), h @ [array_of_list (xs @ extra_patterns)])"
proof -
  have "get_value (h @ [array_of_list []]) (JRef b) cpip = Inr pv"
    using assms(1,2) by (simp add: heap_lookup_def get_from_obj_def get_own_plain)
  from config_array_eq[OF this iterate_append[OF assms(3)]] show ?thesis .
qed

lemma config_overrides_ok:
  assumes "b < length h" "map_of (props (h ! b)) cpip = Some pv" "iterate h pv = Inr xs"
  shows "config_overrides (JRef b) h =
    (Inr (JRef (length h)),
     h @ [\<lparr>cls = OrdinaryObj, props = [(cpip, JRef (Suc (length h)))]\<rparr>, array_of_list (xs @ extra_patterns)])"
proof -
  let ?h1 = "h @ [new_object]"
  have "b < length ?h1" "map_of (props (?h1 ! b)) cpip = Some pv" "iterate ?h1 pv = Inr xs"
    using assms(1,2) iterate_append[OF assms(3)] by simp_all
  from config_array_ok[OF this]
  have arr: "array_lit [Spread (member (JRef b) cpip), Elem (lit (JStr macro_pattern)),
                    Elem (lit (JStr state_change_pattern))] ?h1 =
         (Inr (JRef (Suc (length h))), ?h1 @ [array_of_list (xs @ extra_patterns)])"
    by simp
  have "cpip \<noteq> ''__proto__''" by (simp add: cpip_def)
  with arr show ?thesis
    by (simp add: config_overrides_def object_lit_def alloc_def new_object_def nth_append)
qed

lemma config_exports_ok:
  assumes "b < length h" "map_of (props (h ! b)) cpip = Some pv" "iterate h pv = Inr xs"
  shows "config_exports (JRef b) h = (Inr (JRef b), patched_heap h b xs)"
proof -
  let ?o = "\<lparr>cls = OrdinaryObj, props = [(cpip, JRef (Suc (length h)))]\<rparr>"
  let ?h3 = "h @ [?o, array_of_list (xs @ extra_patterns)]"
  have "object_assign ?h3 (JRef b) [JRef (length h)] =
    (Inr (JRef b), ?h3[b := (?h3 ! b)\<lparr>props := alist_merge (props (?h3 ! b)) (props (?h3 ! length h))\<rparr>])"
    by (rule object_assign_plain) (use assms(1) in \<open>simp_all add: nth_append\<close>)
  then show ?thesis
    using config_overrides_ok[OF assms] assms(1)
    by (simp add: config_exports_def patched_heap_def nth_append)
qed

lemma patched_heap_length [simp]: "length (patched_heap h b xs) = length h + 2"
  by (simp add: patched_heap_def)

lemma patched_heap_base:
  "b < length h \<Longrightarrow> patched_heap h b xs ! b =
     (h ! b)\<lparr>props := AList.update cpip (JRef (Suc (length h))) (props (h ! b))\<rparr>"
  by (simp add: patched_heap_def nth_append)

lemma patched_heap_array:
  "b < length h \<Longrightarrow> patched_heap h b xs ! Suc (length h) = array_of_list (xs @ extra_patterns)"
  by (simp add: patched_heap_def nth_append)

lemma patched_heap_other:
  "a < length h \<Longrightarrow> a \<noteq> b \<Longrightarrow> patched_heap h b xs ! a = h ! a"
  by (simp add: patched_heap_def nth_append)

lemma patched_cpip:
  "b < length h \<Longrightarrow> get_value (patched_heap h b xs) (JRef b) cpip = Inr (JRef (Suc (length h)))"
  by (simp add: patched_heap_base heap_lookup_def get_from_obj_def get_own_plain)

lemma patched_iterate:
  "b < length h \<Longrightarrow> length xs + 2 < 2 ^ 32 \<Longrightarrow>
   iterate (patched_heap h b xs) (JRef (Suc (length h))) = Inr (xs @ extra_patterns)"
  by (rule iterate_array_of_list) (simp_all add: patched_heap_array extra_patterns_def)

text \<open>
  C4: when the shared configuration has no \<open>coveragePathIgnorePatterns\<close>, the member
  access reads \<open>undefined\<close> and spreading it throws a \<open>TypeError\<close>: the module throws,
  the missing list is not treated as empty. The object literal and the empty array
  it started are left in the heap.
\<close>

theorem config_exports_missing_key:
  assumes "b < length h" "map_of (props (h ! b)) cpip = None"
  shows "config_exports (JRef b) h = (Inl TypeError, h @ [new_object, array_of_list []])"
proof -
  have nk: "cpip \<notin> set (proto_keys (cls (h ! b)))"
    by (cases "cls (h ! b)")
       (simp_all add: cpip_def object_proto_keys_def array_proto_keys_def string_proto_keys_def
          number_proto_keys_def)
  have "get_value (h @ [new_object, array_of_list []]) (JRef b) cpip = Inr JUndef"
    using assms nk by (simp add: heap_lookup_def get_from_obj_def get_own_plain nth_append)
  then show ?thesis
    by (simp add: config_exports_def config_overrides_def js_simps)
qed

lemma jest_config_body_ok:
  assumes "req kcd_jest st = (Inr (JRef b), st1)" "b < length (rheap st1)"
    and "map_of (props (rheap st1 ! b)) cpip = Some pv" "iterate (rheap st1) pv = Inr xs"
  shows "jest_config_body req self st =
           (Inr (), set_exports self (JRef b) (st1\<lparr>rheap := patched_heap (rheap st1) b xs\<rparr>))"
  using assms config_exports_ok[OF assms(2-4)] by (simp add: jest_config_body_def)

lemma kcd_jest_not_config [simp]: "kcd_jest \<noteq> jest_config_id"
  by (simp add: kcd_jest_def jest_config_id_def)

lemma load_jest_config_ok:
  assumes "map_of (rcache st) jest_config_id = None"
    and "require_module kcd_jest (ext kcd_jest) (start_module jest_config_id st) = (Inr (JRef b), st1)"
    and "b < length (rheap st1)" "map_of (props (rheap st1 ! b)) cpip = Some pv"
    and "iterate (rheap st1) pv = Inr xs"
  shows "load_jest_config ext st =
     (Inr (JRef b), set_exports jest_config_id (JRef b) (st1\<lparr>rheap := patched_heap (rheap st1) b xs\<rparr>))"
proof -
  have "jest_config_body (\<lambda>m. require_module m (ext m)) jest_config_id (start_module jest_config_id st) =
     (Inr (), set_exports jest_config_id (JRef b) (st1\<lparr>rheap := patched_heap (rheap st1) b xs\<rparr>))"
    by (rule jest_config_body_ok) (use assms(2-5) in simp_all)
  then show ?thesis
    unfolding load_jest_config_def by (rule require_module_new[OF assms(1)]) simp
qed

subsection \<open>The exports of the module and the shared configuration\<close>

text \<open>
  C1: when the shared configuration at \<open>b\<close> has a \<open>coveragePathIgnorePatterns\<close> that
  spreads to \<open>xs\<close>, line 3 returns that same object, not a copy: its
  \<open>coveragePathIgnorePatterns\<close> now reads a new array holding \<open>xs\<close> followed by
  \<open>'.macro.js$'\<close> and \<open>'<rootDir>/src/stateChangeTypes.js'\<close>, two objects are
  allocated, and every other object of the heap is left as it was.
\<close>

theorem config_exports_mutates_base:
  assumes "b < length h" "map_of (props (h ! b)) cpip = Some pv" "iterate h pv = Inr xs"
    and "length xs + 2 < 2 ^ 32"
  shows "\<exists>h'. config_exports (JRef b) h = (Inr (JRef b), h') \<and> length h' = length h + 2
     \<and> (\<forall>a < length h. a \<noteq> b \<longrightarrow> h' ! a = h ! a)
     \<and> (\<exists>q. get_value h' (JRef b) cpip = Inr (JRef q) \<and> iterate h' (JRef q) = Inr (xs @ extra_patterns))"
proof (intro exI conjI)
  show "config_exports (JRef b) h = (Inr (JRef b), patched_heap h b xs)"
    using assms(1-3) by (rule config_exports_ok)
  show "get_value (patched_heap h b xs) (JRef b) cpip = Inr (JRef (Suc (length h)))"
    using assms(1) by (rule patched_cpip)
  show "iterate (patched_heap h b xs) (JRef (Suc (length h))) = Inr (xs @ extra_patterns)"
    using assms(1,4) by (rule patched_iterate)
qed (simp_all add: patched_heap_other)


text \<open>
  C3: loading \<open>jest.config.js\<close> for the first time leaves the same object cached as
  the exports of both \<open>jest.config.js\<close> and \<open>kcd-scripts/jest\<close>: every later
  \<open>require('kcd-scripts/jest')\<close> sees the extended pattern list.
\<close>

theorem shared_config_mutated:
  assumes "map_of (rcache st) jest_config_id = None"
    and "require_module kcd_jest (ext kcd_jest) (start_module jest_config_id st) = (Inr (JRef b), st1)"
    and "b < length (rheap st1)" "map_of (props (rheap st1 ! b)) cpip = Some pv"
    and "iterate (rheap st1) pv = Inr xs" "length xs + 2 < 2 ^ 32"
  shows "fst (load_jest_config ext st) = Inr (JRef b)
    \<and> map_of (rcache (snd (load_jest_config ext st))) jest_config_id = Some (JRef b)
    \<and> map_of (rcache (snd (load_jest_config ext st))) kcd_jest = Some (JRef b)
    \<and> (\<exists>q. get_value (rheap (snd (load_jest_config ext st))) (JRef b) cpip = Inr (JRef q)
         \<and> iterate (rheap (snd (load_jest_config ext st))) (JRef q) = Inr (xs @ extra_patterns))"
proof -
  let ?st' = "set_exports jest_config_id (JRef b) (st1\<lparr>rheap := patched_heap (rheap st1) b xs\<rparr>)"
  have ld: "load_jest_config ext st = (Inr (JRef b), ?st')"
    using assms(1-5) by (rule load_jest_config_ok)
  have kcd: "map_of (rcache st1) kcd_jest = Some (JRef b)"
    using assms(2) by (rule require_module_in_cache)
  have "get_value (rheap ?st') (JRef b) cpip = Inr (JRef (Suc (length (rheap st1))))"
    using patched_cpip[OF assms(3)] by simp
  moreover have "iterate (rheap ?st') (JRef (Suc (length (rheap st1)))) = Inr (xs @ extra_patterns)"
    using patched_iterate[OF assms(3,6)] by simp
  ultimately show ?thesis using ld kcd by auto
qed


text \<open>
  C12: when the body of \<open>kcd-scripts/jest\<close> throws on the first load, loading
  \<open>jest.config.js\<close> throws the same error and neither module stays in the cache, so a
  later \<open>require\<close> runs both bodies again.
\<close>

theorem load_jest_config_kcd_throws:
  assumes "map_of (rcache st) jest_config_id = None" "map_of (rcache st) kcd_jest = None"
    and "ext kcd_jest (start_module kcd_jest (start_module jest_config_id st)) = (Inl e, st2)"
  shows "fst (load_jest_config ext st) = Inl e
    \<and> map_of (rcache (snd (load_jest_config ext st))) jest_config_id = None
    \<and> map_of (rcache (snd (load_jest_config ext st))) kcd_jest = None"
proof -
  have "map_of (rcache (start_module jest_config_id st)) kcd_jest = None"
    using assms(2) by (simp add: start_module_def alloc_def kcd_jest_not_config)
  with assms(3) have "require_module kcd_jest (ext kcd_jest) (start_module jest_config_id st)
      = (Inl e, st2\<lparr>rcache := AList.delete kcd_jest (rcache st2)\<rparr>)"
    by (simp add: require_module_def)
  with assms(1) show ?thesis
    by (simp add: load_jest_config_def require_module_def jest_config_body_def delete_conv')
qed


subsection \<open>Line 3 refines the specification\<close>

lemma nat_str_not_cpip [simp]: "nat_str i \<noteq> cpip"
proof
  assume "nat_str i = cpip"
  with nat_str_digits[of i] show False by (simp add: cpip_def is_digit_def)
qed

lemma array_elem_update_cpip [simp]:
  "array_elem (ob\<lparr>props := AList.update cpip v (props ob)\<rparr>) i = array_elem ob i"
  by (cases "cls ob") (simp_all add: array_elem_def get_own_def)

lemma abs_val_patched:
  assumes "b < length h" "val_ok (length h) v"
  shows "abs_val (patched_heap h b xs) v = abs_val h v"
proof (cases v)
  case (JRef a)
  with assms(2) have "a < length h" by simp
  then show ?thesis
    using JRef assms(1)
    by (cases "a = b") (simp_all add: abs_val_def heap_lookup_def patched_heap_base patched_heap_other
        split: objclass.split)
qed (simp_all add: abs_val_def)

text \<open>
  C2: line 3 refines the specification's \<open>compose\<close> on the configuration it
  returns: when the shared configuration's \<open>coveragePathIgnorePatterns\<close> is an array,
  the object line 3 returns, read as an abstract configuration, is \<open>compose\<close> of the
  shared configuration as it was and the override directive of lines 4-8 (the two
  patterns appended to the sequence, every other key as it was).
\<close>

theorem config_exports_refines_compose:
  assumes "wf_heap h" "b < length h" "map_of (props (h ! b)) cpip = Some (JRef p)"
    and "cls (h ! p) = ArrayObj n" "n + 2 < 2 ^ 32"
  shows "\<exists>h'. config_exports (JRef b) h = (Inr (JRef b), h')
           \<and> abs_config h' b = compose (abs_config h b) config_override_spec"
proof -
  let ?xs = "map (array_elem (h ! p)) [0..<n]"
  have ob: "wf_obj (length h) (h ! b)" using assms(1,2) by (rule wf_heap_nth)
  have p: "p < length h"
    using ob assms(3) by (auto simp add: wf_obj_def list_all_iff dest: map_of_SomeD)
  have it: "iterate h (JRef p) = Inr ?xs" using p assms(4) by (simp add: heap_lookup_def)
  let ?h' = "patched_heap h b ?xs"
  have ex: "config_exports (JRef b) h = (Inr (JRef b), ?h')"
    by (rule config_exports_ok[OF assms(2,3) it])
  have "abs_config ?h' b k = compose (abs_config h b) config_override_spec k" for k
  proof (cases "k = cpip")
    case True
    have "abs_val ?h' (JRef (Suc (length h))) = ASeq (?xs @ extra_patterns)"
      using assms(2,5) by (intro abs_val_array_of_list) (simp_all add: patched_heap_array extra_patterns_def)
    moreover have "abs_val h (JRef p) = ASeq ?xs"
      using p assms(4) by (simp add: abs_val_def heap_lookup_def)
    ultimately show ?thesis
      using True assms(2,3)
      by (simp add: abs_config_def compose_def config_override_spec_def patched_heap_base)
  next
    case False
    have "abs_config ?h' b k = map_option (abs_val ?h') (map_of (props (h ! b)) k)"
      using False assms(2) by (simp add: abs_config_def patched_heap_base)
    also have "\<dots> = abs_config h b k"
    proof (cases "map_of (props (h ! b)) k")
      case (Some v)
      then have "val_ok (length h) v"
        using ob by (auto simp add: wf_obj_def list_all_iff dest: map_of_SomeD)
      with Some assms(2) show ?thesis by (simp add: abs_config_def abs_val_patched)
    qed (simp add: abs_config_def)
    finally show ?thesis using False by (simp add: compose_def config_override_spec_def)
  qed
  with ex show ?thesis by blast
qed

text \<open>
  C5: when the shared \<open>coveragePathIgnorePatterns\<close> is a non-empty string, the
  specification replaces it by the two patterns (it is a scalar), while line 3
  spreads it into one-character patterns followed by the two patterns.
\<close>

theorem config_exports_string_diverges:
  assumes "b < length h" "map_of (props (h ! b)) cpip = Some (JStr s)" "s \<noteq> []"
    and "length s + 2 < 2 ^ 32"
  shows "\<exists>h'. config_exports (JRef b) h = (Inr (JRef b), h')
           \<and> abs_config h' b cpip = Some (ASeq (map (\<lambda>c. JStr [c]) s @ extra_patterns))
           \<and> compose (abs_config h b) config_override_spec cpip = Some (ASeq extra_patterns)"
proof (intro exI conjI)
  show "config_exports (JRef b) h = (Inr (JRef b), patched_heap h b (map (\<lambda>c. JStr [c]) s))"
    by (rule config_exports_ok[OF assms(1,2)]) simp
  show "abs_config (patched_heap h b (map (\<lambda>c. JStr [c]) s)) b cpip
      = Some (ASeq (map (\<lambda>c. JStr [c]) s @ extra_patterns))"
    using assms(1,4) abs_val_array_of_list[of "Suc (length h)"]
    by (simp add: abs_config_def patched_heap_base patched_heap_array extra_patterns_def)
  show "compose (abs_config h b) config_override_spec cpip = Some (ASeq extra_patterns)"
    using assms(2) by (simp add: compose_def config_override_spec_def abs_config_def abs_val_def)
qed

subsection \<open>Witnesses\<close>

theorem config_exports_mutates_base_witness:
  "\<exists>h'. config_exports (JRef 0) [\<lparr>cls = OrdinaryObj, props = [(cpip, JRef 1)]\<rparr>, array_of_list [JStr ''/node_modules/'']] = (Inr (JRef 0), h') \<and> length h' = length [\<lparr>cls = OrdinaryObj, props = [(cpip, JRef 1)]\<rparr>, array_of_list [JStr ''/node_modules/'']] + 2
     \<and> (\<forall>a < length [\<lparr>cls = OrdinaryObj, props = [(cpip, JRef 1)]\<rparr>, array_of_list [JStr ''/node_modules/'']]. a \<noteq> 0 \<longrightarrow> h' ! a = [\<lparr>cls = OrdinaryObj, props = [(cpip, JRef 1)]\<rparr>, array_of_list [JStr ''/node_modules/'']] ! a)
     \<and> (\<exists>q. get_value h' (JRef 0) cpip = Inr (JRef q)
          \<and> iterate h' (JRef q) = Inr ([JStr ''/node_modules/''] @ extra_patterns))"
proof -
  have it: "iterate [\<lparr>cls = OrdinaryObj, props = [(cpip, JRef 1)]\<rparr>, array_of_list [JStr ''/node_modules/'']] (JRef 1) = Inr [JStr ''/node_modules/'']"
    by (rule iterate_array_of_list) simp_all
  show ?thesis by (rule config_exports_mutates_base[OF _ _ it]) simp_all
qed


theorem shared_config_mutated_witness:
  "fst (load_jest_config (\<lambda>m st. (Inr (), set_exports m (JRef 3) (st\<lparr>rheap := rheap st @ [array_of_list [JStr ''/node_modules/''], \<lparr>cls = OrdinaryObj, props = [(cpip, JRef 2)]\<rparr>]\<rparr>))) \<lparr>rheap = [], rcache = []\<rparr>) = Inr (JRef 3)
    \<and> map_of (rcache (snd (load_jest_config (\<lambda>m st. (Inr (), set_exports m (JRef 3) (st\<lparr>rheap := rheap st @ [array_of_list [JStr ''/node_modules/''], \<lparr>cls = OrdinaryObj, props = [(cpip, JRef 2)]\<rparr>]\<rparr>))) \<lparr>rheap = [], rcache = []\<rparr>))) jest_config_id = Some (JRef 3)
    \<and> map_of (rcache (snd (load_jest_config (\<lambda>m st. (Inr (), set_exports m (JRef 3) (st\<lparr>rheap := rheap st @ [array_of_list [JStr ''/node_modules/''], \<lparr>cls = OrdinaryObj, props = [(cpip, JRef 2)]\<rparr>]\<rparr>))) \<lparr>rheap = [], rcache = []\<rparr>))) kcd_jest = Some (JRef 3)
    \<and> (\<exists>q. get_value (rheap (snd (load_jest_config (\<lambda>m st. (Inr (), set_exports m (JRef 3) (st\<lparr>rheap := rheap st @ [array_of_list [JStr ''/node_modules/''], \<lparr>cls = OrdinaryObj, props = [(cpip, JRef 2)]\<rparr>]\<rparr>))) \<lparr>rheap = [], rcache = []\<rparr>))) (JRef 3) cpip = Inr (JRef q)
         \<and> iterate (rheap (snd (load_jest_config (\<lambda>m st. (Inr (), set_exports m (JRef 3) (st\<lparr>rheap := rheap st @ [array_of_list [JStr ''/node_modules/''], \<lparr>cls = OrdinaryObj, props = [(cpip, JRef 2)]\<rparr>]\<rparr>))) \<lparr>rheap = [], rcache = []\<rparr>))) (JRef q)
             = Inr ([JStr ''/node_modules/''] @ extra_patterns))"
proof -
  have r: "require_module kcd_jest ((\<lambda>m st. (Inr (), set_exports m (JRef 3) (st\<lparr>rheap := rheap st @ [array_of_list [JStr ''/node_modules/''], \<lparr>cls = OrdinaryObj, props = [(cpip, JRef 2)]\<rparr>]\<rparr>))) kcd_jest) (start_module jest_config_id \<lparr>rheap = [], rcache = []\<rparr>)
      = (Inr (JRef 3), snd (require_module kcd_jest ((\<lambda>m st. (Inr (), set_exports m (JRef 3) (st\<lparr>rheap := rheap st @ [array_of_list [JStr ''/node_modules/''], \<lparr>cls = OrdinaryObj, props = [(cpip, JRef 2)]\<rparr>]\<rparr>))) kcd_jest)
           (start_module jest_config_id \<lparr>rheap = [], rcache = []\<rparr>)))"
    by code_simp
  show ?thesis by (rule shared_config_mutated[where ext = "(\<lambda>m st. (Inr (), set_exports m (JRef 3) (st\<lparr>rheap := rheap st @ [array_of_list [JStr ''/node_modules/''], \<lparr>cls = OrdinaryObj, props = [(cpip, JRef 2)]\<rparr>]\<rparr>)))", OF _ r]) code_simp+
qed


theorem config_exports_missing_key_witness:
  "config_exports (JRef 0) [\<lparr>cls = OrdinaryObj, props = [(''testEnvironment'', JStr ''jsdom'')]\<rparr>]
   = (Inl TypeError, [\<lparr>cls = OrdinaryObj, props = [(''testEnvironment'', JStr ''jsdom'')]\<rparr>]
        @ [new_object, array_of_list []])"
  by (rule config_exports_missing_key) code_simp+


theorem load_jest_config_kcd_throws_witness:
  "fst (load_jest_config (\<lambda>m st. (Inl TypeError, st)) \<lparr>rheap = [], rcache = []\<rparr>) = Inl TypeError
    \<and> map_of (rcache (snd (load_jest_config (\<lambda>m st. (Inl TypeError, st)) \<lparr>rheap = [], rcache = []\<rparr>))) jest_config_id = None
    \<and> map_of (rcache (snd (load_jest_config (\<lambda>m st. (Inl TypeError, st)) \<lparr>rheap = [], rcache = []\<rparr>))) kcd_jest = None"
  by (rule load_jest_config_kcd_throws) simp_all


theorem config_exports_refines_compose_witness:
  "\<exists>h'. config_exports (JRef 0) [\<lparr>cls = OrdinaryObj, props = [(''testEnvironment'', JStr ''jsdom''), (cpip, JRef 1)]\<rparr>, array_of_list [JStr ''/node_modules/'']] = (Inr (JRef 0), h')
     \<and> abs_config h' 0 = compose (abs_config [\<lparr>cls = OrdinaryObj, props = [(''testEnvironment'', JStr ''jsdom''), (cpip, JRef 1)]\<rparr>, array_of_list [JStr ''/node_modules/'']] 0) config_override_spec"
  by (rule config_exports_refines_compose[where p = 1 and n = 1]) code_simp+

theorem config_exports_string_diverges_witness:
  "\<exists>h'. config_exports (JRef 0) [\<lparr>cls = OrdinaryObj, props = [(cpip, JStr ''ab'')]\<rparr>]
           = (Inr (JRef 0), h')
     \<and> abs_config h' 0 cpip = Some (ASeq (map (\<lambda>c. JStr [c]) ''ab'' @ extra_patterns))
     \<and> compose (abs_config [\<lparr>cls = OrdinaryObj, props = [(cpip, JStr ''ab'')]\<rparr>] 0)
         config_override_spec cpip = Some (ASeq extra_patterns)"
  by (rule config_exports_string_diverges) simp_all

end
