(* ===== verification/Module_Graph.thy ===== *)
theory Module_Graph
  imports Modules "HOL-Library.Monad_Syntax"
begin

text \<open>
  Loading a graph of CommonJS modules: line 1 of \<open>src/jest.config.js\<close> requires
  \<open>kcd-scripts/jest\<close>, whose body requires further modules, which may require each
  other in cycles. A module of the table is given by the ids its body requires, in
  order; its body requires them one after the other and keeps the fresh
  \<open>module.exports\<close> object. Each \<open>require\<close> is \<open>require_module\<close> of \<open>Modules\<close>
  (Node's \<open>Module._load\<close>), with the body's own requires as its body; an id the table
  does not have throws \<open>ModuleNotFound\<close> before any module is created. Nothing bounds
  the depth of the recursion in advance, so the loader is a \<open>partial_function\<close> in
  the option monad (\<open>None\<close>: the loading does not end); that it always ends is a
  theorem, resting on the cache entry \<open>require\<close> makes before it runs a body.
\<close>

type_synonym module_table = "(string \<times> string list) list"

partial_function (option) require_all ::
  "module_table \<Rightarrow> string list \<Rightarrow> runtime \<Rightarrow> (unit res \<times> runtime) option" where
  "require_all mods ms st = (case ms of
      [] \<Rightarrow> Some (Inr (), st)
    | m # ms' \<Rightarrow> (case map_of (rcache st) m of
        Some _ \<Rightarrow> require_all mods ms' st
      | None \<Rightarrow> (case map_of mods m of
          None \<Rightarrow> Some (Inl (ModuleNotFound m), st)
        | Some deps \<Rightarrow> do {
            p \<leftarrow> require_all mods deps (start_module m st);
            (case require_module m (\<lambda>_. p) st of
              (Inl e, st') \<Rightarrow> Some (Inl e, st')
            | (Inr _, st') \<Rightarrow> require_all mods ms' st')
          })))"

declare require_all.simps [code]

text \<open>One unfolding of the loader, over the function used for the recursive calls.\<close>

definition require_all_step ::
  "(module_table \<Rightarrow> string list \<Rightarrow> runtime \<Rightarrow> (unit res \<times> runtime) option) \<Rightarrow>
   module_table \<Rightarrow> string list \<Rightarrow> runtime \<Rightarrow> (unit res \<times> runtime) option" where
  "require_all_step f mods ms st = (case ms of
      [] \<Rightarrow> Some (Inr (), st)
    | m # ms' \<Rightarrow> (case map_of (rcache st) m of
        Some _ \<Rightarrow> f mods ms' st
      | None \<Rightarrow> (case map_of mods m of
          None \<Rightarrow> Some (Inl (ModuleNotFound m), st)
        | Some deps \<Rightarrow> f mods deps (start_module m st) \<bind> (\<lambda>p.
            (case require_module m (\<lambda>_. p) st of
              (Inl e, st') \<Rightarrow> Some (Inl e, st')
            | (Inr _, st') \<Rightarrow> f mods ms' st')))))"

text \<open>The modules in the cache, and the modules of the table not yet in it.\<close>

definition cached :: "runtime \<Rightarrow> string set" where
  "cached st = dom (map_of (rcache st))"

definition uncached :: "module_table \<Rightarrow> runtime \<Rightarrow> string set" where
  "uncached mods st = set (map fst mods) - cached st"

text \<open>
  The modules a module depends on, directly or through other modules of the table.
\<close>

inductive reaches :: "module_table \<Rightarrow> string \<Rightarrow> string \<Rightarrow> bool" where
  reaches_refl: "reaches mods m m"
| reaches_dep: "map_of mods m = Some deps \<Longrightarrow> d \<in> set deps \<Longrightarrow> reaches mods d m' \<Longrightarrow> reaches mods m m'"

text \<open>
  Every cached module of the table whose body is not still running (not in \<open>P\<close>) has
  its dependencies in the cache.
\<close>

definition deps_cached :: "module_table \<Rightarrow> string set \<Rightarrow> runtime \<Rightarrow> bool" where
  "deps_cached mods P st \<longleftrightarrow>
     (\<forall>m deps. map_of mods m = Some deps \<longrightarrow> m \<in> cached st \<longrightarrow> m \<notin> P \<longrightarrow> set deps \<subseteq> cached st)"

subsection \<open>The cache grows\<close>

lemma cached_start_module [simp]: "cached (start_module m st) = insert m (cached st)"
  by (auto simp add: cached_def start_module_def alloc_def dom_map_of_conv_image_fst update_conv')

lemma cached_delete [simp]: "cached (st\<lparr>rcache := AList.delete m (rcache st)\<rparr>) = cached st - {m}"
  by (auto simp add: cached_def delete_conv')

lemma not_cached_iff: "map_of (rcache st) m = None \<longleftrightarrow> m \<notin> cached st"
  by (simp add: cached_def domIff)

lemma require_module_body_cached:
  assumes "map_of (rcache st) m = None" "require_module m (\<lambda>_. p) st = (r, st')"
  shows "cached (snd p) - {m} \<subseteq> cached st' \<and> cached st' \<subseteq> cached (snd p)"
  using assms by (cases p) (auto simp add: require_module_def split: sum.splits option.splits)

lemma require_module_body_ok:
  assumes "map_of (rcache st) m = None" "require_module m (\<lambda>_. p) st = (Inr u, st')"
  shows "st' = snd p \<and> m \<in> cached st'"
  using assms by (cases p) (auto simp add: require_module_def cached_def split: sum.splits option.splits)

lemma require_all_unfold: "require_all mods ms st = require_all_step require_all mods ms st"
  by (subst require_all.simps) (simp add: require_all_step_def)

lemma require_all_step_SomeE:
  assumes "require_all_step f mods ms st = Some res"
  obtains (nil) "ms = []" "res = (Inr (), st)"
  | (hit) m ms' e where "ms = m # ms'" "map_of (rcache st) m = Some e" "f mods ms' st = Some res"
  | (missing) m ms' where "ms = m # ms'" "map_of (rcache st) m = None" "map_of mods m = None"
      "res = (Inl (ModuleNotFound m), st)"
  | (err) m ms' deps p e st' where "ms = m # ms'" "map_of (rcache st) m = None"
      "map_of mods m = Some deps" "f mods deps (start_module m st) = Some p"
      "require_module m (\<lambda>_. p) st = (Inl e, st')" "res = (Inl e, st')"
  | (ok) m ms' deps p u st' where "ms = m # ms'" "map_of (rcache st) m = None"
      "map_of mods m = Some deps" "f mods deps (start_module m st) = Some p"
      "require_module m (\<lambda>_. p) st = (Inr u, st')" "f mods ms' st' = Some res"
proof (cases ms)
  case Nil
  with assms nil show ?thesis by (simp add: require_all_step_def)
next
  case (Cons m ms')
  show ?thesis
  proof (cases "map_of (rcache st) m")
    case (Some e)
    with assms Cons hit show ?thesis by (simp add: require_all_step_def)
  next
    case None
    show ?thesis
    proof (cases "map_of mods m")
      case None
      with \<open>map_of (rcache st) m = None\<close> assms Cons missing show ?thesis
        by (simp add: require_all_step_def)
    next
      case (Some deps)
      with \<open>map_of (rcache st) m = None\<close> assms Cons obtain p where
        fp: "f mods deps (start_module m st) = Some p" and
        rest: "(case require_module m (\<lambda>_. p) st of
            (Inl e, st') \<Rightarrow> Some (Inl e, st') | (Inr _, st') \<Rightarrow> f mods ms' st') = Some res"
        by (auto simp add: require_all_step_def split: Option.bind_splits)
      with \<open>map_of (rcache st) m = None\<close> Some Cons err ok show ?thesis
        by (cases "require_module m (\<lambda>_. p) st") (auto split: sum.splits)
    qed
  qed
qed

text \<open>
  Partial correctness by the steps of the loader: a property of its results that the
  empty list, a cached module, a missing module and a loaded module (from the property
  of the loading of its dependencies and of the rest of the list) keep.
\<close>

lemma require_all_pinduct:
  assumes ret: "require_all mods ms st = Some res"
    and nil: "\<And>st. P [] st (Inr (), st)"
    and hit: "\<And>m ms st e res. map_of (rcache st) m = Some e \<Longrightarrow> P ms st res \<Longrightarrow> P (m # ms) st res"
    and missing: "\<And>m ms st. map_of (rcache st) m = None \<Longrightarrow> map_of mods m = None \<Longrightarrow>
                    P (m # ms) st (Inl (ModuleNotFound m), st)"
    and err: "\<And>m ms st deps p e st'. map_of (rcache st) m = None \<Longrightarrow> map_of mods m = Some deps \<Longrightarrow>
                P deps (start_module m st) p \<Longrightarrow> require_module m (\<lambda>_. p) st = (Inl e, st') \<Longrightarrow>
                P (m # ms) st (Inl e, st')"
    and ok: "\<And>m ms st deps p u st' res. map_of (rcache st) m = None \<Longrightarrow> map_of mods m = Some deps \<Longrightarrow>
               P deps (start_module m st) p \<Longrightarrow> require_module m (\<lambda>_. p) st = (Inr u, st') \<Longrightarrow>
               P ms st' res \<Longrightarrow> P (m # ms) st res"
  shows "P ms st res"
proof -
  have "mods = mods \<longrightarrow> P ms st res"
  proof (rule require_all.raw_induct[where P = "\<lambda>mods' ms st res. mods' = mods \<longrightarrow> P ms st res", OF _ ret])
    fix f mods' ms st res
    assume IH: "\<And>mods'' ms st res. f mods'' ms st = Some res \<Longrightarrow> mods'' = mods \<longrightarrow> P ms st res"
      and eq: "(case ms of [] \<Rightarrow> Some (Inr (), st)
        | m # ms' \<Rightarrow> (case map_of (rcache st) m of
            Some _ \<Rightarrow> f mods' ms' st
          | None \<Rightarrow> (case map_of mods' m of
              None \<Rightarrow> Some (Inl (ModuleNotFound m), st)
            | Some deps \<Rightarrow> f mods' deps (start_module m st) \<bind> (\<lambda>p.
                (case require_module m (\<lambda>_. p) st of
                  (Inl e, st') \<Rightarrow> Some (Inl e, st')
                | (Inr _, st') \<Rightarrow> f mods' ms' st'))))) = Some res"
    have IH': "P ms st res" if "f mods ms st = Some res" for ms st res using IH[OF that] by simp
    show "mods' = mods \<longrightarrow> P ms st res"
    proof
      assume md: "mods' = mods"
      have "require_all_step f mods' ms st = Some res" using eq by (simp only: require_all_step_def)
      then have "require_all_step f mods ms st = Some res" by (simp only: md)
      then show "P ms st res"
        by (cases rule: require_all_step_SomeE) (auto intro: nil hit missing err ok IH')
    qed
  qed
  then show ?thesis by simp
qed

text \<open>The same rule, where each case may use that the cache only grows.\<close>

lemma require_all_pinduct_mono:
  assumes ret: "require_all mods ms st = Some res"
    and nil: "\<And>st. P [] st (Inr (), st)"
    and hit: "\<And>m ms st e res. map_of (rcache st) m = Some e \<Longrightarrow> cached st \<subseteq> cached (snd res) \<Longrightarrow>
                P ms st res \<Longrightarrow> P (m # ms) st res"
    and missing: "\<And>m ms st. map_of (rcache st) m = None \<Longrightarrow> map_of mods m = None \<Longrightarrow>
                    P (m # ms) st (Inl (ModuleNotFound m), st)"
    and err: "\<And>m ms st deps p e st'. map_of (rcache st) m = None \<Longrightarrow> map_of mods m = Some deps \<Longrightarrow>
                cached (start_module m st) \<subseteq> cached (snd p) \<Longrightarrow>
                P deps (start_module m st) p \<Longrightarrow> require_module m (\<lambda>_. p) st = (Inl e, st') \<Longrightarrow>
                P (m # ms) st (Inl e, st')"
    and ok: "\<And>m ms st deps p u st' res. map_of (rcache st) m = None \<Longrightarrow> map_of mods m = Some deps \<Longrightarrow>
               cached (start_module m st) \<subseteq> cached (snd p) \<Longrightarrow> cached st' \<subseteq> cached (snd res) \<Longrightarrow>
               P deps (start_module m st) p \<Longrightarrow> require_module m (\<lambda>_. p) st = (Inr u, st') \<Longrightarrow>
               P ms st' res \<Longrightarrow> P (m # ms) st res"
  shows "P ms st res \<and> cached st \<subseteq> cached (snd res)"
  using ret
proof (rule require_all_pinduct[where P = "\<lambda>ms st res. P ms st res \<and> cached st \<subseteq> cached (snd res)"])
  fix m ms st deps p e st'
  assume m: "map_of (rcache st) m = None" and md: "map_of mods m = Some deps"
    and IH: "P deps (start_module m st) p \<and> cached (start_module m st) \<subseteq> cached (snd p)"
    and rm: "require_module m (\<lambda>_. p) st = (Inl e, st')"
  have "m \<notin> cached st" using m by (simp add: not_cached_iff)
  with IH require_module_body_cached[OF m rm] err[OF m md _ _ rm]
  show "P (m # ms) st (Inl e, st') \<and> cached st \<subseteq> cached (snd (Inl e, st'))" by auto
next
  fix m ms st deps p u st' res
  assume m: "map_of (rcache st) m = None" and md: "map_of mods m = Some deps"
    and IH: "P deps (start_module m st) p \<and> cached (start_module m st) \<subseteq> cached (snd p)"
    and rm: "require_module m (\<lambda>_. p) st = (Inr u, st')"
    and IH2: "P ms st' res \<and> cached st' \<subseteq> cached (snd res)"
  with require_module_body_ok[OF m rm] ok[OF m md _ _ _ rm]
  show "P (m # ms) st res \<and> cached st \<subseteq> cached (snd res)" by auto
qed (auto intro: nil hit missing)

lemma require_all_mono:
  assumes "require_all mods ms st = Some res"
  shows "cached st \<subseteq> cached (snd res)"
  using require_all_pinduct_mono[OF assms, where P = "\<lambda>_ _ _. True"] by simp

subsection \<open>Loading always ends\<close>

lemma card_uncached_less:
  "cached st \<subseteq> cached st' \<Longrightarrow> m \<in> set (map fst mods) \<Longrightarrow> m \<notin> cached st \<Longrightarrow> m \<in> cached st' \<Longrightarrow>
   card (uncached mods st') < card (uncached mods st)"
  by (rule psubset_card_mono) (auto simp add: uncached_def)

lemma require_all_Cons_new:
  assumes "map_of (rcache st) m = None" "map_of mods m = Some deps"
    and "require_all mods deps (start_module m st) = Some p"
  shows "require_all mods (m # ms) st = (case require_module m (\<lambda>_. p) st of
      (Inl e, st') \<Rightarrow> Some (Inl e, st') | (Inr _, st') \<Rightarrow> require_all mods ms st')"
  using assms by (subst require_all_unfold) (simp add: require_all_step_def)

lemma require_all_Some:
  "card (uncached mods st) = n \<Longrightarrow> \<exists>res. require_all mods ms st = Some res"
proof (induction n arbitrary: ms st rule: less_induct)
  case (less n)
  then show ?case
  proof (induction ms)
    case Nil
    show ?case by (simp add: require_all_unfold require_all_step_def)
  next
    case (Cons m ms')
    consider (hit) e where "map_of (rcache st) m = Some e" | (missing) "map_of (rcache st) m = None"
        "map_of mods m = None" | (new) deps where "map_of (rcache st) m = None" "map_of mods m = Some deps"
      by (cases "map_of (rcache st) m"; cases "map_of mods m") auto
    then show ?case
    proof cases
      case new
      have mem: "m \<in> set (map fst mods)" using new by (force dest: map_of_SomeD)
      have nc: "m \<notin> cached st" using new by (simp add: not_cached_iff)
      have "card (uncached mods (start_module m st)) < n"
        using card_uncached_less[OF _ mem nc, of "start_module m st"] Cons.prems by auto
      then obtain p where p: "require_all mods deps (start_module m st) = Some p" using less.IH by blast
      obtain r0 st0 where rm: "require_module m (\<lambda>_. p) st = (r0, st0)" by fastforce
      have "\<exists>res. require_all mods ms' st0 = Some res" if "r0 = Inr u" for u
      proof -
        have "st0 = snd p" "m \<in> cached st0" using require_module_body_ok[OF new(1)] rm that by auto
        with require_all_mono[OF p] have "card (uncached mods st0) < n"
          using card_uncached_less[OF _ mem nc, of st0] Cons.prems by auto
        then show ?thesis using less.IH by blast
      qed
      with rm show ?thesis by (cases r0) (simp_all add: require_all_Cons_new[OF new p])
    qed (use Cons.IH Cons.prems in \<open>simp_all add: require_all_unfold require_all_step_def\<close>)
  qed
qed

text \<open>
  C13: loading any list of modules from any table and any runtime state returns: the
  loader never runs forever, also when the modules require each other in cycles,
  because a module is cached before its body runs.
\<close>

theorem require_all_terminates: "\<exists>res. require_all mods ms st = Some res"
  using require_all_Some by blast

subsection \<open>Every module reached is loaded\<close>

lemma deps_cached_start:
  "deps_cached mods P st \<Longrightarrow> deps_cached mods (insert m P) (start_module m st)"
  by (auto simp add: deps_cached_def)

lemma deps_cached_finish:
  assumes "deps_cached mods (insert m P) st" "map_of mods m = Some deps" "set deps \<subseteq> cached st"
  shows "deps_cached mods P st"
  unfolding deps_cached_def
proof (intro allI impI)
  fix m' deps'
  assume "map_of mods m' = Some deps'" "m' \<in> cached st" "m' \<notin> P"
  with assms show "set deps' \<subseteq> cached st" by (cases "m' = m") (auto simp add: deps_cached_def)
qed

lemma require_all_deps_cached:
  assumes "require_all mods ms st = Some res"
  shows "\<forall>P. fst res = Inr () \<longrightarrow> deps_cached mods P st \<longrightarrow>
           deps_cached mods P (snd res) \<and> set ms \<subseteq> cached (snd res)"
proof -
  have "(\<forall>P. fst res = Inr () \<longrightarrow> deps_cached mods P st \<longrightarrow>
           deps_cached mods P (snd res) \<and> set ms \<subseteq> cached (snd res)) \<and> cached st \<subseteq> cached (snd res)"
    using assms
  proof (rule require_all_pinduct_mono[where P = "\<lambda>ms st res. \<forall>P. fst res = Inr () \<longrightarrow> deps_cached mods P st \<longrightarrow>
           deps_cached mods P (snd res) \<and> set ms \<subseteq> cached (snd res)"])
    fix m ms st e res
    assume "map_of (rcache st) m = Some e" "cached st \<subseteq> cached (snd res)"
      "\<forall>P. fst res = Inr () \<longrightarrow> deps_cached mods P st \<longrightarrow> deps_cached mods P (snd res) \<and> set ms \<subseteq> cached (snd res)"
    then show "\<forall>P. fst res = Inr () \<longrightarrow> deps_cached mods P st \<longrightarrow>
             deps_cached mods P (snd res) \<and> set (m # ms) \<subseteq> cached (snd res)"
      by (auto simp add: cached_def)
  next
    fix m ms st deps p u st' res
    assume m: "map_of (rcache st) m = None" and md: "map_of mods m = Some deps"
      and IH: "\<forall>P. fst p = Inr () \<longrightarrow> deps_cached mods P (start_module m st) \<longrightarrow>
                deps_cached mods P (snd p) \<and> set deps \<subseteq> cached (snd p)"
      and rm: "require_module m (\<lambda>_. p) st = (Inr u, st')"
      and IH2: "\<forall>P. fst res = Inr () \<longrightarrow> deps_cached mods P st' \<longrightarrow>
                deps_cached mods P (snd res) \<and> set ms \<subseteq> cached (snd res)"
      and mono2: "cached st' \<subseteq> cached (snd res)"
    have st': "st' = snd p" "m \<in> cached st'" using require_module_body_ok[OF m rm] by auto
    have p: "fst p = Inr ()" using m rm by (cases p) (auto simp add: require_module_def split: sum.splits)
    show "\<forall>P. fst res = Inr () \<longrightarrow> deps_cached mods P st \<longrightarrow>
             deps_cached mods P (snd res) \<and> set (m # ms) \<subseteq> cached (snd res)"
    proof (intro allI impI)
      fix P
      assume r: "fst res = Inr ()" and dc: "deps_cached mods P st"
      have "deps_cached mods (insert m P) (snd p)" "set deps \<subseteq> cached (snd p)"
        using IH p deps_cached_start[OF dc] by auto
      with md st' have "deps_cached mods P st'" by (simp add: deps_cached_finish)
      with IH2 r st'(2) mono2 show "deps_cached mods P (snd res) \<and> set (m # ms) \<subseteq> cached (snd res)"
        by auto
    qed
  qed auto
  then show ?thesis ..
qed

lemma reaches_cached:
  "reaches mods m m' \<Longrightarrow> deps_cached mods {} st \<Longrightarrow> m \<in> cached st \<Longrightarrow> m' \<in> cached st"
  by (induction rule: reaches.induct) (auto simp add: deps_cached_def)

text \<open>
  C14: after a successful load of a module from an empty cache, every module it
  depends on, directly or through other modules, is in the cache.
\<close>

theorem require_all_loads_reachable:
  assumes "require_all mods [m] st = Some (Inr (), st')" "rcache st = []" "reaches mods m m'"
  shows "m' \<in> cached st'"
proof -
  have "deps_cached mods {} st" using assms(2) by (simp add: deps_cached_def cached_def)
  with require_all_deps_cached[OF assms(1)] have "deps_cached mods {} st'" "m \<in> cached st'" by auto
  with assms(3) show ?thesis by (blast intro: reaches_cached)
qed

subsection \<open>Each module body runs once\<close>

lemma finite_cached [simp]: "finite (cached st)"
  by (simp add: cached_def finite_dom_map_of)

lemma card_diff_chain:
  assumes "finite C" "A \<subseteq> B" "B \<subseteq> C"
  shows "card (C - A) = card (C - B) + card (B - A)"
proof -
  have eq: "C - A = (C - B) \<union> (B - A)" using assms(2,3) by blast
  have "(C - B) \<inter> (B - A) = {}" by blast
  moreover have "finite (C - B)" "finite (B - A)" using assms(1,3) by (auto intro: finite_subset)
  ultimately show ?thesis unfolding eq by (simp add: card_Un_disjoint)
qed

lemma require_all_allocs:
  assumes "require_all mods ms st = Some res"
  shows "fst res = Inr () \<longrightarrow> length (rheap (snd res)) = length (rheap st) + card (cached (snd res) - cached st)"
proof -
  have "(fst res = Inr () \<longrightarrow>
      length (rheap (snd res)) = length (rheap st) + card (cached (snd res) - cached st))
      \<and> cached st \<subseteq> cached (snd res)"
    using assms
  proof (rule require_all_pinduct_mono[where P = "\<lambda>ms st res. fst res = Inr () \<longrightarrow>
      length (rheap (snd res)) = length (rheap st) + card (cached (snd res) - cached st)"])
    fix m ms st deps p u st' res
    assume m: "map_of (rcache st) m = None"
      and mono1: "cached (start_module m st) \<subseteq> cached (snd p)" and mono2: "cached st' \<subseteq> cached (snd res)"
      and IH: "fst p = Inr () \<longrightarrow> length (rheap (snd p)) = length (rheap (start_module m st))
                  + card (cached (snd p) - cached (start_module m st))"
      and rm: "require_module m (\<lambda>_. p) st = (Inr u, st')"
      and IH2: "fst res = Inr () \<longrightarrow> length (rheap (snd res)) = length (rheap st') + card (cached (snd res) - cached st')"
    have st': "st' = snd p" using require_module_body_ok[OF m rm] by simp
    have p: "fst p = Inr ()" using m rm by (cases p) (auto simp add: require_module_def split: sum.splits)
    have new: "m \<notin> cached st" using m by (simp add: not_cached_iff)
    have len1: "length (rheap (start_module m st)) = Suc (length (rheap st))"
      by (simp add: start_module_def alloc_def)
    have c1: "card (cached (snd res) - cached st)
        = card (cached (snd res) - cached st') + card (cached st' - cached st)"
      using mono1 mono2 st' by (intro card_diff_chain) auto
    have c2: "card (cached st' - cached st)
        = card (cached st' - insert m (cached st)) + card (insert m (cached st) - cached st)"
      using mono1 st' by (intro card_diff_chain) auto
    have "insert m (cached st) - cached st = {m}" using new by blast
    then have "card (insert m (cached st) - cached st) = 1" by simp
    with c1 c2 IH IH2 p st' len1
    show "fst res = Inr () \<longrightarrow>
        length (rheap (snd res)) = length (rheap st) + card (cached (snd res) - cached st)"
      by auto
  qed (auto simp add: cached_def)
  then show ?thesis ..
qed

text \<open>
  C15: a successful load allocates exactly one \<open>module.exports\<close> object per
  module it adds to the cache: every module body runs once, cycles included.
\<close>

theorem require_all_allocates_once:
  assumes "require_all mods ms st = Some (Inr (), st')"
  shows "length (rheap st') = length (rheap st) + card (cached st' - cached st)"
  using require_all_allocs[OF assms] by simp

subsection \<open>A module whose loading throws is not cached\<close>

text \<open>
  C16: a module whose loading throws is not left in the cache, so a later
  \<open>require\<close> of it runs its body again.
\<close>

theorem require_all_error_uncached:
  assumes "require_all mods [m] st = Some (Inl e, st')" "map_of (rcache st) m = None"
  shows "m \<notin> cached st'"
proof (cases "map_of mods m")
  case None
  with assms show ?thesis by (subst (asm) require_all.simps) (simp add: not_cached_iff)
next
  case (Some deps)
  obtain p where p: "require_all mods deps (start_module m st) = Some p"
    using require_all_terminates by blast
  obtain r0 st0 where rm: "require_module m (\<lambda>_. p) st = (r0, st0)" by fastforce
  have "require_all mods [] st0 = Some (Inr (), st0)" by (subst require_all.simps) simp
  with assms Some p rm have "r0 = Inl e" "st0 = st'"
    by (subst (asm) require_all.simps, cases r0, simp_all)+
  with rm assms(2) show ?thesis
    by (cases p) (auto simp add: require_module_def cached_def delete_conv' split: sum.splits option.splits)
qed

subsection \<open>Witnesses\<close>

theorem require_all_loads_reachable_witness:
  "''jest-config'' \<in> cached (snd (the (require_all [(''kcd-scripts/jest'', [''jest-config'', ''kcd-scripts/utils'']), (''kcd-scripts/utils'', [''kcd-scripts/jest'']), (''jest-config'', [])] [''kcd-scripts/jest''] \<lparr>rheap = [], rcache = []\<rparr>)))"
proof -
  have eq: "require_all [(''kcd-scripts/jest'', [''jest-config'', ''kcd-scripts/utils'']), (''kcd-scripts/utils'', [''kcd-scripts/jest'']), (''jest-config'', [])] [''kcd-scripts/jest''] \<lparr>rheap = [], rcache = []\<rparr> = Some (Inr (), snd (the (require_all [(''kcd-scripts/jest'', [''jest-config'', ''kcd-scripts/utils'']), (''kcd-scripts/utils'', [''kcd-scripts/jest'']), (''jest-config'', [])] [''kcd-scripts/jest''] \<lparr>rheap = [], rcache = []\<rparr>)))" by code_simp
  show ?thesis by (rule require_all_loads_reachable[OF eq]) (auto intro: reaches.intros)
qed

theorem require_all_allocates_once_witness:
  "length (rheap (snd (the (require_all [(''kcd-scripts/jest'', [''jest-config'', ''kcd-scripts/utils'']), (''kcd-scripts/utils'', [''kcd-scripts/jest'']), (''jest-config'', [])] [''kcd-scripts/jest''] \<lparr>rheap = [], rcache = []\<rparr>)))) = length (rheap \<lparr>rheap = [], rcache = []\<rparr>) + card (cached (snd (the (require_all [(''kcd-scripts/jest'', [''jest-config'', ''kcd-scripts/utils'']), (''kcd-scripts/utils'', [''kcd-scripts/jest'']), (''jest-config'', [])] [''kcd-scripts/jest''] \<lparr>rheap = [], rcache = []\<rparr>))) - cached \<lparr>rheap = [], rcache = []\<rparr>)
   \<and> length (rheap (snd (the (require_all [(''kcd-scripts/jest'', [''jest-config'', ''kcd-scripts/utils'']), (''kcd-scripts/utils'', [''kcd-scripts/jest'']), (''jest-config'', [])] [''kcd-scripts/jest''] \<lparr>rheap = [], rcache = []\<rparr>)))) = 3"
proof -
  have eq: "require_all [(''kcd-scripts/jest'', [''jest-config'', ''kcd-scripts/utils'']), (''kcd-scripts/utils'', [''kcd-scripts/jest'']), (''jest-config'', [])] [''kcd-scripts/jest''] \<lparr>rheap = [], rcache = []\<rparr> = Some (Inr (), snd (the (require_all [(''kcd-scripts/jest'', [''jest-config'', ''kcd-scripts/utils'']), (''kcd-scripts/utils'', [''kcd-scripts/jest'']), (''jest-config'', [])] [''kcd-scripts/jest''] \<lparr>rheap = [], rcache = []\<rparr>)))" by code_simp
  have "length (rheap (snd (the (require_all [(''kcd-scripts/jest'', [''jest-config'', ''kcd-scripts/utils'']), (''kcd-scripts/utils'', [''kcd-scripts/jest'']), (''jest-config'', [])] [''kcd-scripts/jest''] \<lparr>rheap = [], rcache = []\<rparr>)))) = 3" by code_simp
  with require_all_allocates_once[OF eq] show ?thesis by simp
qed

theorem require_all_error_uncached_witness:
  "''a'' \<notin> cached (snd (the (require_all [(''a'', [''b'', ''missing'']), (''b'', [])] [''a''] \<lparr>rheap = [], rcache = []\<rparr>))) \<and> map_of (rcache (snd (the (require_all [(''a'', [''b'', ''missing'']), (''b'', [])] [''a''] \<lparr>rheap = [], rcache = []\<rparr>)))) ''b'' \<noteq> None"
proof -
  have eq: "require_all [(''a'', [''b'', ''missing'']), (''b'', [])] [''a''] \<lparr>rheap = [], rcache = []\<rparr> = Some (Inl (ModuleNotFound ''missing''), snd (the (require_all [(''a'', [''b'', ''missing'']), (''b'', [])] [''a''] \<lparr>rheap = [], rcache = []\<rparr>)))" by code_simp
  have "map_of (rcache (snd (the (require_all [(''a'', [''b'', ''missing'']), (''b'', [])] [''a''] \<lparr>rheap = [], rcache = []\<rparr>)))) ''b'' \<noteq> None" by code_simp
  with require_all_error_uncached[OF eq] show ?thesis by simp
qed

end
