(* ===== verification/Spec2Isabelle.thy ===== *)
theory Spec2Isabelle
  imports Jest_Config Module_Graph
begin

text \<open>
  \<^bold>\<open>Verification of \<open>src/jest.config.js\<close>.\<close>

  The program is one CommonJS module of nine lines. Line 1 loads the shared Jest
  configuration of \<open>kcd-scripts/jest\<close> with \<open>require\<close>; lines 3-9 assign to
  \<open>module.exports\<close> the result of \<open>Object.assign(jestConfig, {...})\<close>, where the
  object literal holds one property \<open>coveragePathIgnorePatterns\<close> whose value is an
  array literal: the spread of \<open>jestConfig.coveragePathIgnorePatterns\<close> followed by
  the strings \<open>'.macro.js$'\<close> and \<open>'<rootDir>/src/stateChangeTypes.js'\<close>. The
  program's behaviour is therefore the behaviour of the parts of ECMAScript and
  Node.js those lines use, and the development models exactly those parts, as
  functions on an explicit heap, in the order the language prescribes.

  \<^bold>\<open>Theories.\<close>
  \<^item> \<open>JS_Prelude\<close>: the type names \<open>addr\<close> and \<open>pkey\<close>, the rule collections, the
    reference merge \<open>alist_merge\<close> of two property lists and its lemmas
    (\<open>map_of_alist_merge\<close>, \<open>keys_alist_merge\<close>, \<open>alist_merge_fresh\<close>), facts on
    lists used as heaps.
  \<^item> \<open>JS_Values\<close>: JavaScript values \<open>jsval\<close> (undefined, null, booleans, integral
    numbers, strings, references), the errors \<open>js_error\<close> a statement may throw, the
    result type \<open>'a res = js_error + 'a\<close>, and the canonical decimal strings of
    array indices (\<open>nat_str\<close>, \<open>digits_val\<close>, \<open>is_array_index\<close>: a key below
    \<open>2^32 - 1\<close> written without leading zeros).
  \<^item> \<open>JS_Heap\<close>: objects as the record \<open>jsobj\<close> (a class tag \<open>objclass\<close>: ordinary,
    array with its length, string, number and boolean wrappers; and the own
    properties as an association list in insertion order), the heap as a list of
    objects indexed by address; \<open>[[Get]]\<close> (\<open>get_value\<close>, with the properties the
    built-in prototypes provide answered as not modelled), \<open>[[OwnPropertyKeys]]\<close>
    (\<open>own_keys\<close>: index keys ascending, then names in insertion order), \<open>[[Set]]\<close>
    (\<open>set_prop\<close>, \<open>put\<close>, with \<open>ArraySetLength\<close> for arrays and the read-only
    characters of strings), and the well-formedness \<open>wf_heap\<close> every operation
    keeps.
  \<^item> \<open>Object_Assign\<close>: \<open>Object.assign\<close> (ECMAScript 20.1.2.1) as \<open>object_assign\<close>:
    \<open>ToObject\<close> of the target, then for each source not \<open>null\<close>/\<open>undefined\<close> its own
    enumerable keys in order, each copied with \<open>Get\<close> and \<open>Set\<close> on the target
    (\<open>assign_sources\<close>, \<open>assign_keys\<close>); the target is modified in place. The
    lemma \<open>assign_keys_to_ordinary\<close> reduces the key loop on an ordinary target to
    \<open>alist_merge\<close> with the pairs \<open>src_pairs\<close> the source holds, for ordinary, array
    and string sources alike.
  \<^item> \<open>JS_Expr\<close>: the expressions of the module as state transformers on the heap:
    literals, member access, array literals with spread elements (\<open>array_lit\<close>,
    \<open>accumulate\<close>, \<open>iterate\<close> for \<open>GetIterator\<close> on arrays and strings) and object
    literals (\<open>object_lit\<close>); the new object or array is allocated before the
    elements are evaluated, as in ECMAScript.
  \<^item> \<open>Modules\<close>: Node's module cache (\<open>runtime\<close>: heap and \<open>require.cache\<close>) and
    \<open>require\<close> (\<open>require_module\<close>, after \<open>Module._load\<close>: a cached module is returned
    as it is; a new one is cached before its body runs and removed if it throws).
  \<^item> \<open>Compose_Spec\<close>: the contract of \<open>spec.md\<close> section 4.1, \<open>compose\<close> on
    abstract configurations (a key maps to a sequence or a scalar), and the
    abstraction \<open>abs_config\<close> of a configuration object of the heap. The
    specification leaves a scalar override of a sequence open; \<open>compose\<close> replaces
    it, as for every non-sequence. Its \<open>InvalidConfigurationError\<close> for a base that
    is not a mapping has no abstract counterpart: the code throws a
    \<open>TypeError\<close> there, at the member access on \<open>null\<close> or \<open>undefined\<close>.
  \<^item> \<open>Jest_Config\<close>: the module itself: the object literal of lines 3-9
    (\<open>config_overrides\<close>), line 3 (\<open>config_exports\<close>), the module body
    (\<open>jest_config_body\<close>) and loading the file through \<open>require\<close>
    (\<open>load_jest_config\<close>), with the body of \<open>kcd-scripts/jest\<close> a parameter.
    \<open>patched_heap\<close> names the heap line 3 leaves on success. The override directive
    of lines 4-8 as an abstract configuration (\<open>config_override_spec\<close>) and the
    theorems relating line 3 to \<open>compose\<close> (C2, C5) are here too.
  \<^item> \<open>Module_Graph\<close>: loading a graph of modules that require each other (the
    dependencies of \<open>kcd-scripts/jest\<close>, possibly cyclic): \<open>require_all\<close> runs
    \<open>require_module\<close> recursively, a module's body requiring its dependencies in
    order; a \<open>partial_function\<close> in the option monad, with \<open>require_all_pinduct\<close>
    as its rule for partial correctness and a measure (the table's modules not yet
    cached) for termination.
  \<^item> This theory: the header; it imports every component.

  \<^bold>\<open>What is shown.\<close> The module (\<open>Jest_Config\<close>, against \<open>Compose_Spec\<close>): when the
  shared configuration has a pattern list, line 3 returns the shared object itself
  with its \<open>coveragePathIgnorePatterns\<close> replaced by a new array holding the old
  patterns followed by the two new ones, and changes no other object (C1); read
  abstractly, the result is the specification's \<open>compose\<close> of the shared
  configuration with the override (C2, a refinement), but it is obtained by mutating
  the shared object: through the module cache \<open>kcd-scripts/jest\<close> and
  \<open>jest.config.js\<close> then export the same mutated object (C3). A missing pattern list
  is not treated as empty: the spread of \<open>undefined\<close> throws (C4); a string-valued
  pattern list is split into characters where \<open>compose\<close> would replace it (C5).
  When \<open>kcd-scripts/jest\<close> throws, loading the configuration throws and leaves
  neither module cached (C12). \<open>Object.assign\<close> (\<open>Object_Assign\<close>): shared keys are
  overwritten and the other keys kept (C6), the target's keys keep their order with
  new keys appended in the source's order (C7), nullish sources are skipped (C8),
  several sources are the same as one assignment after the other (C17, an
  equivalence); from an array source the index keys are copied in ascending numeric
  order whatever their creation order, then its names, without \<open>length\<close> (C18); a
  string source is copied as one property per character (C19); a string target
  throws a \<open>TypeError\<close> when a source writes one of its read-only character indices
  (C20). The lemmas \<open>object_assign_frame\<close> and \<open>object_assign_wf\<close> give the frame
  and the preservation of the heap invariant \<open>wf_heap\<close>. Array literals
  (\<open>JS_Expr\<close>): an array literal spreads back to its elements (C9). Modules: a
  loaded module is not run again (C10). Heap (\<open>JS_Heap\<close>): \<open>ArraySetLength\<close>
  truncates (C11); every write keeps the heap well-formed (\<open>put_wf\<close>). Module
  graphs (\<open>Module_Graph\<close>): loading always returns, cycles included (C13); every
  module reached from the loaded one ends up cached (C14); each body runs exactly
  once (C15); a module whose loading throws is not left cached (C16).

  \<^bold>\<open>Bounds.\<close> Array lengths are natural numbers below \<open>2^32\<close> and array indices
  below \<open>2^32 - 1\<close>, the bounds of ECMAScript (\<open>ArrayCreate\<close>, \<open>ArraySetLength\<close>,
  array index). An array literal never throws on its length: the elements are
  defined one by one with \<open>CreateDataPropertyOrThrow\<close> and no \<open>length\<close> is set
  afterwards, so past \<open>2^32 - 1\<close> elements the length saturates and the further
  elements are ordinary properties (\<open>array_of_list\<close>). The theorems about line 3
  assume fewer than \<open>2^32 - 2\<close> shared patterns, so that the new array is dense and
  spreads back to exactly the old patterns and the two new ones. Loops are over
  finite lists (keys, sources, elements), so these functions are total by structural
  recursion. The one recursion without a structural measure, loading a module graph,
  is a \<open>partial_function (option)\<close>; that it always returns \<open>Some\<close> is C13, by
  induction on the number of the table's modules not yet cached (each new module is
  cached before its body runs), so no fuel is needed there either.

  \<^bold>\<open>Not modelled.\<close> The contents of \<open>kcd-scripts/jest\<close> (an external package:
  its body is an arbitrary parameter, and the theorems assume only what they state
  of the object it exports; in \<open>Module_Graph\<close> a body is reduced to the requires
  it makes); module path resolution and a body that edits \<open>require.cache\<close>;
  what Jest later does with the patterns (regular-expression matching,
  \<open><rootDir>\<close> substitution); prototype objects and inherited properties other than
  the names the built-in prototypes define (reading those yields \<open>NotModelled\<close>);
  accessors, non-writable and non-enumerable own properties other than the virtual
  \<open>length\<close> of arrays and strings; symbols; non-integral numbers; strings beyond ASCII code points.
\<close>

end
